theory Spec2Isabelle
  imports Complex_Main "HOL-Library.AList" "HOL-Library.Sublist"
begin

section \<open>Python values the qcML modules work with\<close>

text \<open>
  The four report modules (ReadQC, MappingQC, SomaticQC, VariantQC) share the parser
  \<open>QcmlMultiqcModule.parse_qcml\<close> of \<^verbatim>\<open>readqc.py\<close>. Exceptions are values: a function that
  can raise returns \<open>error + 'a\<close>, with \<open>Inl\<close> the exception that leaves the function.
  \<open>ValueError\<close> is not listed, since every \<open>ValueError\<close> of the modelled code is caught
  where it is raised.
\<close>

datatype error = ParseError | KeyError | TypeError | UserWarning

text \<open>
  A Python \<open>dict\<close> keeps its keys in insertion order, so it is an association list with
  distinct keys. \<open>d[k] = v\<close> is \<^const>\<open>AList.update\<close> (the value is replaced in place when
  the key exists, the pair is appended otherwise), \<open>d[k]\<close> is \<open>getitem\<close> and raises
  \<open>KeyError\<close> on a missing key, \<open>d.pop(k)\<close> is \<open>pop\<close>.
\<close>

type_synonym ('k, 'v) dict = "('k \<times> 'v) list"

definition getitem :: "('k, 'v) dict \<Rightarrow> 'k \<Rightarrow> error + 'v" where
  "getitem d k = (case map_of d k of None \<Rightarrow> Inl KeyError | Some v \<Rightarrow> Inr v)"

definition pop :: "'k \<Rightarrow> ('k, 'v) dict \<Rightarrow> error + ('v \<times> ('k, 'v) dict)" where
  "pop k d = (case map_of d k of None \<Rightarrow> Inl KeyError | Some v \<Rightarrow> Inr (v, AList.delete k d))"

text \<open>Sequencing of two computations that can raise.\<close>

definition andthen :: "error + 'a \<Rightarrow> ('a \<Rightarrow> error + 'b) \<Rightarrow> error + 'b" where
  "andthen m k = (case m of Inl e \<Rightarrow> Inl e | Inr x \<Rightarrow> k x)"

text \<open>
  An element of an \<open>ElementTree\<close>: its tag (a namespaced tag is the string
  \<open>{uri}local\<close>), its attribute dictionary and its children in document order.
\<close>

datatype element = Element (tag: string) (attrib: "(string, string) dict") (children: "element list")

text \<open>\<open>Element.iter()\<close>: the element and all its descendants, in document order.\<close>

fun iter :: "element \<Rightarrow> element list" where
  "iter (Element t a cs) = Element t a cs # concat (map iter cs)"

text \<open>
  \<open>root.findall(".//T")\<close>: every element with tag \<open>T\<close> on any level beneath \<open>root\<close>
  (the root itself is not a candidate), in document order.
\<close>

definition findall_descendants :: "element \<Rightarrow> string \<Rightarrow> element list" where
  "findall_descendants root' t = filter (\<lambda>e. tag e = t) (concat (map iter (children root')))"

text \<open>
  A stored quality parameter value is a Python \<open>float\<close> or the original \<open>str\<close>. The type
  \<open>'f\<close> of floats is left open.
\<close>

datatype 'f qc_value = Num 'f | Str string

text \<open>
  What the modules take from outside this repository: the XML parser and the built-in
  \<open>float\<close> with its multiplication by the literal \<open>1e6\<close>, and from the reporting framework
  the two base-class methods \<open>clean_s_name\<close> and \<open>ignore_samples\<close>.
  \<^item> \<open>fromstring\<close> is \<open>xml.etree.cElementTree.fromstring\<close>; \<open>None\<close> is its \<open>ParseError\<close>
    on text that is not well-formed XML;
  \<^item> \<open>py_float\<close> is \<open>float(s)\<close>; \<open>None\<close> is its \<open>ValueError\<close>;
  \<^item> \<open>times_1e6 x\<close> is \<open>x * 1e6\<close> on floats.
\<close>

record 'f host =
  fromstring :: "string \<Rightarrow> element option"
  py_float :: "string \<Rightarrow> 'f option"
  times_1e6 :: "'f \<Rightarrow> 'f"
  clean_s_name :: "string \<Rightarrow> string \<Rightarrow> string"
  ignore_samples :: "(string, (string, 'f qc_value) dict) dict \<Rightarrow> (string, (string, 'f qc_value) dict) dict"

section \<open>The qcML extractor: \<open>parse_qcml\<close>\<close>

text \<open>
  \<open>re.sub(r' percentage$', ' %', s)\<close>. The scan goes left to right and replaces the
  match it finds. In Python \<open>$\<close> matches at the end of the string and also just before a
  newline that is the last character of the string, so the pattern matches at the position
  where the rest of the string is \<open>" percentage"\<close> or \<open>" percentage\n"\<close>; what follows the
  match (nothing, or the newline) is copied.
\<close>

fun re_sub_percentage :: "string \<Rightarrow> string" where
  "re_sub_percentage [] = []"
| "re_sub_percentage (c # cs) =
     (if c # cs = '' percentage'' then '' %''
      else if c # cs = '' percentage'' @ [CHR 0x0A] then '' %'' @ [CHR 0x0A]
      else c # re_sub_percentage cs)"

type_synonym 'f quality_parameters = "(string, 'f qc_value) dict"

text \<open>The description table \<open>self.qcml\<close>: key name to a dictionary of description and accession.\<close>

type_synonym qcml_table = "(string, (string, string) dict) dict"

definition qualityParameter :: string where
  "qualityParameter = ''{http://www.prime-xs.eu/ms/qcml}qualityParameter''"

text \<open>
  \<open>float(v)\<close> inside \<open>try\<close>, with the \<open>except ValueError\<close> branch keeping the string.
\<close>

definition float_or_str :: "'f host \<Rightarrow> string \<Rightarrow> 'f qc_value" where
  "float_or_str h v = (case py_float h v of Some x \<Rightarrow> Num x | None \<Rightarrow> Str v)"

text \<open>
  The body of the \<open>for qp in ...\<close> loop, on the pair of the local \<open>quality_parameters\<close>
  and \<open>self.qcml\<close>. The attribute lookups happen in the order of the source:
  \<open>value\<close>, then (unless the element is skipped) \<open>name\<close>, \<open>description\<close>, \<open>accession\<close>.
\<close>

definition qp_step ::
  "'f host \<Rightarrow> element \<Rightarrow> 'f quality_parameters \<times> qcml_table \<Rightarrow>
     error + ('f quality_parameters \<times> qcml_table)" where
  "qp_step h qp st =
     andthen (getitem (attrib qp) ''value'') (\<lambda>v.
       if prefix ''n/a'' v then Inr st
       else andthen (getitem (attrib qp) ''name'') (\<lambda>n.
         let qp_name = re_sub_percentage n;
             quality_parameters = AList.update qp_name (float_or_str h v) (fst st)
         in andthen (getitem (attrib qp) ''description'') (\<lambda>d.
            andthen (getitem (attrib qp) ''accession'') (\<lambda>a.
              Inr (quality_parameters,
                   AList.update qp_name [(''description'', d), (''accession'', a)] (snd st))))))"

fun qp_loop ::
  "'f host \<Rightarrow> element list \<Rightarrow> 'f quality_parameters \<times> qcml_table \<Rightarrow>
     error + ('f quality_parameters \<times> qcml_table)" where
  "qp_loop h [] st = Inr st"
| "qp_loop h (qp # qps) st = andthen (qp_step h qp st) (qp_loop h qps)"

text \<open>
  \<open>parse_qcml(self, qcml_contents)\<close>: the returned dictionary together with the updated
  \<open>self.qcml\<close>. Nothing is caught, so a \<open>ParseError\<close> of the XML parser and a \<open>KeyError\<close>
  of an attribute lookup leave the function.
\<close>

definition parse_qcml ::
  "'f host \<Rightarrow> qcml_table \<Rightarrow> string \<Rightarrow> error + ('f quality_parameters \<times> qcml_table)" where
  "parse_qcml h qcml qcml_contents =
     (case fromstring h qcml_contents of
        None \<Rightarrow> Inl ParseError
      | Some root' \<Rightarrow> qp_loop h (findall_descendants root' qualityParameter) ([], qcml))"


section \<open>What the report modules do with the parsed samples\<close>

text \<open>
  A file handed over by \<open>find_log_files\<close>: the dictionary \<open>f\<close> with its entries
  \<open>f['s_name']\<close>, \<open>f['root']\<close> and \<open>f['f']\<close> (the contents).
\<close>

record log_file =
  f_s_name :: string
  f_root :: string
  f_f :: string

type_synonym 'f qcdata = "(string, 'f quality_parameters) dict"

text \<open>
  A table header is a dictionary of display settings. Its values are string and integer
  literals, a setting read from the framework's \<open>config\<close> (\<open>HConfig\<close> with the name of the
  setting), or the function \<open>lambda x: x * config.m\<close> (\<open>HModify\<close> with the name \<open>m\<close>).
\<close>

datatype hval = HStr string | HInt int | HConfig string | HModify string

type_synonym header = "(string, hval) dict"
type_synonym headers = "(string, header) dict"

text \<open>
  The calls a module makes into the reporting framework are recorded in the order they are
  made. A run of \<open>__init__\<close> returns \<open>Inr\<close> with these calls when it completes and \<open>Inl\<close>
  with the exception and the calls made before it when it raises. The constant \<open>pconfig\<close>
  arguments of the plots are left out.
\<close>

datatype 'f plot = Table "'f qcdata" headers | Bargraph "'f qcdata list" "headers list"

datatype 'f event =
    Add_data_source log_file
  | General_stats_addcols "'f qcdata" headers
  | Write_data_file "'f qcdata" string
  | Add_section string string string "'f plot"

type_synonym 'f run = "(error \<times> 'f event list) + 'f event list"

subsection \<open>Parsing the files and dropping ignored samples\<close>

text \<open>
  The loop \<open>for f in self.find_log_files(...)\<close>, the same in every module: on the triple of
  \<open>self.qcml\<close>, \<open>self.qcdata\<close> and the calls made so far.
\<close>

fun parse_files ::
  "'f host \<Rightarrow> log_file list \<Rightarrow> qcml_table \<times> 'f qcdata \<times> 'f event list \<Rightarrow>
     (error \<times> 'f event list) + (qcml_table \<times> 'f qcdata \<times> 'f event list)" where
  "parse_files h [] st = Inr st"
| "parse_files h (f # fs) (qcml, qcdata, calls) =
     (let calls' = calls @ [Add_data_source f];
          s_name = clean_s_name h (f_s_name f) (f_root f)
      in case parse_qcml h qcml (f_f f) of
           Inl e \<Rightarrow> Inl (e, calls')
         | Inr (qp, qcml') \<Rightarrow> parse_files h fs (qcml', AList.update s_name qp qcdata, calls'))"

text \<open>
  The start of \<open>__init__\<close> up to \<open>raise UserWarning\<close>: parse the files, apply
  \<open>ignore_samples\<close>, and raise when no sample is left.
\<close>

definition load_samples ::
  "'f host \<Rightarrow> log_file list \<Rightarrow>
     (error \<times> 'f event list) + (qcml_table \<times> 'f qcdata \<times> 'f event list)" where
  "load_samples h files =
     (case parse_files h files ([], [], []) of
        Inl x \<Rightarrow> Inl x
      | Inr (qcml, qcdata, calls) \<Rightarrow>
          (let qcdata' = ignore_samples h qcdata
           in if length qcdata' = 0 then Inl (UserWarning, calls)
              else Inr (qcml, qcdata', calls)))"

subsection \<open>Megabases to bases\<close>

text \<open>
  \<open>for s, kv in self.qcdata.items(): ...\<close> with a body that changes \<open>kv\<close> in place: the
  first exception ends the loop.
\<close>

fun for_each_sample ::
  "('f quality_parameters \<Rightarrow> error + 'f quality_parameters) \<Rightarrow> 'f qcdata \<Rightarrow> error + 'f qcdata" where
  "for_each_sample body [] = Inr []"
| "for_each_sample body ((s, kv) # rest) =
     andthen (body kv) (\<lambda>kv'.
       andthen (for_each_sample body rest) (\<lambda>rest'. Inr ((s, kv') # rest')))"

text \<open>
  \<open>kv[key] = kv[mb_key] * 1e6; kv.pop(mb_key)\<close>. A value that parse_qcml kept as a string
  cannot be multiplied by a float: \<open>TypeError\<close>.
\<close>

definition mb_to_bases ::
  "'f host \<Rightarrow> string \<Rightarrow> string \<Rightarrow> 'f quality_parameters \<Rightarrow> error + 'f quality_parameters" where
  "mb_to_bases h mb_key key kv =
     andthen (getitem kv mb_key) (\<lambda>x.
       case x of
         Str t \<Rightarrow> Inl TypeError
       | Num y \<Rightarrow> andthen (pop mb_key (AList.update key (Num (times_1e6 h y)) kv)) (\<lambda>r. Inr (snd r)))"

text \<open>
  The block \<open># add bases ... key, derived from bases ... (MB)\<close>, which ReadQC has for
  \<open>bases sequenced\<close> and MappingQC for \<open>bases usable\<close>; both give the new key the
  description \<open>Bases sequenced in total.\<close>
\<close>

definition add_bases_key ::
  "'f host \<Rightarrow> string \<Rightarrow> string \<Rightarrow> qcml_table \<times> 'f qcdata \<Rightarrow> error + (qcml_table \<times> 'f qcdata)" where
  "add_bases_key h mb_key key st =
     andthen (pop mb_key (fst st)) (\<lambda>r.
       let qcml1 = AList.update key [] (snd r)
       in andthen (getitem qcml1 key) (\<lambda>entry.
            let qcml2 = AList.update key
                          (AList.update ''description'' ''Bases sequenced in total.'' entry) qcml1
            in andthen (for_each_sample (mb_to_bases h mb_key key) (snd st)) (\<lambda>qcdata'.
                 Inr (qcml2, qcdata'))))"

definition readqc_add_bases_sequenced ::
  "'f host \<Rightarrow> qcml_table \<times> 'f qcdata \<Rightarrow> error + (qcml_table \<times> 'f qcdata)" where
  "readqc_add_bases_sequenced h = add_bases_key h ''bases sequenced (MB)'' ''bases sequenced''"

definition mappingqc_add_bases_usable ::
  "'f host \<Rightarrow> qcml_table \<times> 'f qcdata \<Rightarrow> error + (qcml_table \<times> 'f qcdata)" where
  "mappingqc_add_bases_usable h = add_bases_key h ''bases usable (MB)'' ''bases usable''"

subsection \<open>Table headers\<close>

text \<open>
  The dictionary comprehension \<open>{qp_key: {...} for qp_key, qp_entry in self.qcml.items()}\<close>.
\<close>

fun make_headers :: "string \<Rightarrow> qcml_table \<Rightarrow> error + headers" where
  "make_headers ns [] = Inr []"
| "make_headers ns ((qp_key, qp_entry) # rest) =
     andthen (getitem qp_entry ''description'') (\<lambda>d.
       andthen (make_headers ns rest) (\<lambda>hs.
         Inr ((qp_key, [(''namespace'', HStr ns), (''title'', HStr qp_key),
                        (''description'', HStr d)]) # hs)))"

text \<open>\<open>d.update(u)\<close> for a dictionary literal \<open>u\<close>: its items are stored in order.\<close>

definition dict_update :: "('k, 'v) dict \<Rightarrow> ('k, 'v) dict \<Rightarrow> ('k, 'v) dict" where
  "dict_update u d = fold (\<lambda>kv. AList.update (fst kv) (snd kv)) u d"

text \<open>\<open>headers[k].update(u)\<close>: the lookup raises \<open>KeyError\<close> when the column is missing.\<close>

definition header_update :: "string \<Rightarrow> header \<Rightarrow> headers \<Rightarrow> error + headers" where
  "header_update k u hs =
     andthen (getitem hs k) (\<lambda>entry. Inr (AList.update k (dict_update u entry) hs))"

text \<open>A sequence of such statements outside \<open>try\<close>.\<close>

fun header_updates :: "(string \<times> header) list \<Rightarrow> headers \<Rightarrow> error + headers" where
  "header_updates [] hs = Inr hs"
| "header_updates ((k, u) # rest) hs = andthen (header_update k u hs) (header_updates rest)"

text \<open>
  The same sequence inside \<open>try: ... except KeyError: pass\<close>: the first missing column ends
  the block, and the updates made before it stay.
\<close>

fun try_header_updates :: "(string \<times> header) list \<Rightarrow> headers \<Rightarrow> headers" where
  "try_header_updates [] hs = hs"
| "try_header_updates ((k, u) # rest) hs =
     (case header_update k u hs of
        Inl e \<Rightarrow> hs
      | Inr hs' \<Rightarrow> try_header_updates rest hs')"

fun dict_ordered_subset_from :: "('k, 'v) dict \<Rightarrow> 'k list \<Rightarrow> ('k, 'v) dict \<Rightarrow> ('k, 'v) dict" where
  "dict_ordered_subset_from d [] od = od"
| "dict_ordered_subset_from d (k # ks) od =
     (case getitem d k of
        Inl e \<Rightarrow> dict_ordered_subset_from d ks od
      | Inr v \<Rightarrow> dict_ordered_subset_from d ks (AList.update k v od))"

text \<open>\<open>dict_ordered_subset(d, ks)\<close>: the loop starts from an empty \<open>OrderedDict\<close>.\<close>

definition dict_ordered_subset :: "('k, 'v) dict \<Rightarrow> 'k list \<Rightarrow> ('k, 'v) dict" where
  "dict_ordered_subset d ks = dict_ordered_subset_from d ks []"

text \<open>
  \<open>make_description(self, keynames)\<close>. \<open>format\<close> is given the description and the accession,
  so both are looked up, though only the description is printed.
\<close>

definition describe_key :: "qcml_table \<Rightarrow> string \<Rightarrow> error + string" where
  "describe_key qcml k =
     andthen (getitem qcml k) (\<lambda>entry.
       andthen (getitem entry ''description'') (\<lambda>d.
         andthen (getitem entry ''accession'') (\<lambda>a. Inr d)))"

fun describe_items :: "qcml_table \<Rightarrow> string list \<Rightarrow> error + string" where
  "describe_items qcml [] = Inr []"
| "describe_items qcml (k # ks) =
     andthen (describe_key qcml k) (\<lambda>d.
       andthen (describe_items qcml ks) (\<lambda>r. Inr (''<li>'' @ d @ ''</li>'' @ r)))"

definition make_description :: "qcml_table \<Rightarrow> string list \<Rightarrow> error + string" where
  "make_description qcml keynames =
     (if length keynames = 1 then describe_key qcml (keynames ! 0)
      else andthen (describe_items qcml keynames) (\<lambda>r. Inr (''<ul>'' @ r @ ''</ul>'')))"


subsection \<open>ReadQC\<close>

definition percent_max :: header where
  "percent_max = [(''suffix'', HStr ''%''), (''format'', HStr ''{:,.2f}''), (''max'', HInt 100)]"

text \<open>The header dictionary with its seven \<open>update\<close> statements, none of them guarded.\<close>

definition readqc_headers :: "qcml_table \<Rightarrow> error + headers" where
  "readqc_headers qcml =
     andthen (make_headers ''ReadQC'' qcml) (header_updates
       [(''Q20 read %'', percent_max),
        (''Q30 base %'', percent_max),
        (''gc content %'', percent_max),
        (''no base call %'', [(''suffix'', HStr ''%''), (''format'', HStr ''{:,.2f}''), (''floor'', HInt 1)]),
        (''bases sequenced'', [(''suffix'', HConfig ''base_count_prefix''), (''format'', HStr ''{:,.2f}''),
                               (''modify'', HModify ''base_count_multiplier'')]),
        (''read count'', [(''suffix'', HConfig ''read_count_prefix''), (''format'', HStr ''{:,.2f}''),
                          (''modify'', HModify ''read_count_multiplier'')]),
        (''read length'', [(''suffix'', HStr ''bp''), (''format'', HStr ''{:,.0f}'')])])"

text \<open>\<open>MultiqcModule.__init__\<close> of \<^verbatim>\<open>readqc.py\<close>.\<close>

definition readqc_init :: "'f host \<Rightarrow> log_file list \<Rightarrow> 'f run" where
  "readqc_init h files =
     (case load_samples h files of
        Inl x \<Rightarrow> Inl x
      | Inr (qcml0, qcdata0, calls) \<Rightarrow>
          (case andthen (readqc_add_bases_sequenced h (qcml0, qcdata0)) (\<lambda>st.
                  andthen (readqc_headers (fst st)) (\<lambda>hs. Inr (snd st, hs))) of
             Inl e \<Rightarrow> Inl (e, calls)
           | Inr (qcdata, hs) \<Rightarrow>
               Inr (calls @
                 [General_stats_addcols qcdata
                    (dict_ordered_subset hs [''read count'', ''bases sequenced'', ''gc content %'']),
                  Write_data_file qcdata ''multiqc_readqc'',
                  Add_section ''Overview'' ''readqc-all'' [] (Table qcdata hs)])))"

subsection \<open>MappingQC\<close>

text \<open>\<open>'{:d}'.format(x)\<close> for a non-negative \<open>x\<close>.\<close>

fun format_d :: "nat \<Rightarrow> string" where
  "format_d n =
     (if n < 10 then [''0123456789'' ! n]
      else format_d (n div 10) @ [''0123456789'' ! (n mod 10)])"

definition coverage_values :: "nat list" where
  "coverage_values = [10, 20, 30, 50, 100, 200, 500]"

definition coverage_key :: "nat \<Rightarrow> string" where
  "coverage_key x = ''target region '' @ format_d x @ ''x %''"

definition percent_max_scale :: "string \<Rightarrow> header" where
  "percent_max_scale c = percent_max @ [(''scale'', HStr c)]"

text \<open>
  The header dictionary: five unguarded \<open>update\<close> statements, then the four
  \<open>try: ... except KeyError: pass\<close> blocks for the columns that only some inputs have.
\<close>

definition mappingqc_headers :: "qcml_table \<Rightarrow> error + headers" where
  "mappingqc_headers qcml =
     andthen (make_headers ''MappingQC'' qcml) (\<lambda>hs0.
     andthen (header_updates
       [(''trimmed base %'', [(''suffix'', HStr ''%''), (''format'', HStr ''{:,.2f}''), (''floor'', HInt 1),
                              (''scale'', HStr ''PuBu'')]),
        (''clipped base %'', [(''suffix'', HStr ''%''), (''format'', HStr ''{:,.2f}''), (''floor'', HInt 1),
                              (''scale'', HStr ''PuRd'')]),
        (''mapped read %'', percent_max_scale ''Reds''),
        (''bases usable'', [(''suffix'', HConfig ''base_count_prefix''), (''format'', HStr ''{:,.2f}''),
                            (''modify'', HModify ''base_count_multiplier''), (''scale'', HStr ''Greens'')]),
        (''on-target read %'', percent_max_scale ''Purples'')] hs0) (\<lambda>hs1.
     let hs2 = try_header_updates [(''duplicate read %'', percent_max_scale ''YlOrRd'')] hs1;
         hs3 = try_header_updates
                 [(''properly-paired read %'', percent_max_scale ''GnBu''),
                  (''insert size'', [(''suffix'', HStr ''bp''), (''format'', HStr ''{:,.2f}''),
                                     (''scale'', HStr ''RdYlGn'')])] hs2;
         hs4 = try_header_updates
                 [(''SNV allele frequency deviation'',
                   [(''suffix'', HStr []), (''format'', HStr ''{:,.2f}''), (''floor'', HInt 0),
                    (''ceiling'', HInt 10), (''minRange'', HInt 10), (''scale'', HStr ''Greys'')])] hs3
     in Inr (try_header_updates
               ((''target region read depth'', [(''suffix'', HStr ''x''), (''format'', HStr ''{:,.2f}'')]) #
                map (\<lambda>x. (coverage_key x, percent_max_scale ''YlGn'')) coverage_values) hs4)))"

text \<open>
  The list comprehension \<open>[{s: headers[s]} for s in ks]\<close> of the last bar plot; its lookups
  are not guarded.
\<close>

fun single_headers :: "headers \<Rightarrow> string list \<Rightarrow> error + headers list" where
  "single_headers hs [] = Inr []"
| "single_headers hs (s # ks) =
     andthen (getitem hs s) (\<lambda>hd. andthen (single_headers hs ks) (\<lambda>r. Inr ([(s, hd)] # r)))"

text \<open>\<open>MultiqcModule.__init__\<close> of \<^verbatim>\<open>mappingqc.py\<close>.\<close>

definition mappingqc_init :: "'f host \<Rightarrow> log_file list \<Rightarrow> 'f run" where
  "mappingqc_init h files =
     (case load_samples h files of
        Inl x \<Rightarrow> Inl x
      | Inr (qcml0, qcdata0, calls) \<Rightarrow>
          (case andthen (mappingqc_add_bases_usable h (qcml0, qcdata0)) (\<lambda>st.
                  andthen (mappingqc_headers (fst st)) (\<lambda>hs. Inr (fst st, snd st, hs))) of
             Inl e \<Rightarrow> Inl (e, calls)
           | Inr (qcml, qcdata, hs) \<Rightarrow>
               (let calls1 = calls @
                      [General_stats_addcols qcdata
                         (dict_ordered_subset hs [''bases usable'', ''mapped read %'', ''on-target read %'',
                            ''target region read depth'']),
                       Write_data_file qcdata ''multiqc_mappingqc'',
                       Add_section ''Overview'' ''mappingqc-general'' []
                         (Table qcdata (dict_ordered_subset hs
                            [''bases usable'', ''on-target read %'', ''mapped read %'',
                             ''properly-paired read %'', ''trimmed base %'', ''clipped base %'',
                             ''duplicate read %'', ''insert size'', ''SNV allele frequency deviation'']))]
                in if ''target region 10x %'' \<in> set (map fst hs) then
                     (let calls2 = calls1 @
                            [Add_section ''Coverage'' ''mappingqc-coverage'' []
                               (Table qcdata (dict_ordered_subset hs
                                  (''target region read depth'' # map coverage_key coverage_values)))]
                      in case make_description qcml [''target region read depth''] of
                           Inl e \<Rightarrow> Inl (e, calls2)
                         | Inr d \<Rightarrow>
                             (let calls3 = calls2 @
                                    [Add_section ''Sequencing Depth'' ''mappingqc-read-depth'' d
                                       (Bargraph [qcdata]
                                          [dict_ordered_subset hs [''target region read depth'']])]
                              in case single_headers hs (map coverage_key coverage_values) of
                                   Inl e \<Rightarrow> Inl (e, calls3)
                                 | Inr cats \<Rightarrow>
                                     Inr (calls3 @
                                       [Add_section ''Target Coverage'' ''mappingqc-target-coverage'' []
                                          (Bargraph (replicate (length coverage_values) qcdata) cats)])))
                   else Inr calls1)))"

subsection \<open>SomaticQC: the somatic variant rate\<close>

text \<open>
  The pattern \<open>(low|moderate|high) \(([0-9.]+) var/Mb\)\<close> tried at the start of a string:
  the length of the match, if there is one. The three words start with different letters,
  and the character after the digits is a space, which \<open>[0-9.]\<close> excludes, so at most one
  alternative and only the longest run of digits and dots can match.
\<close>

definition rate_level_len :: "string \<Rightarrow> nat option" where
  "rate_level_len s =
     (if prefix ''low'' s then Some 3
      else if prefix ''moderate'' s then Some 8
      else if prefix ''high'' s then Some 4
      else None)"

definition rate_digit :: "char \<Rightarrow> bool" where
  "rate_digit c = (c \<in> set ''0123456789.'')"

definition match_rate_len :: "string \<Rightarrow> nat option" where
  "match_rate_len s =
     (case rate_level_len s of
        None \<Rightarrow> None
      | Some a \<Rightarrow>
          (let s1 = drop a s
           in if prefix '' ('' s1
              then (let s2 = drop 2 s1;
                        ds = takeWhile rate_digit s2;
                        s3 = dropWhile rate_digit s2
                    in if ds \<noteq> [] \<and> prefix '' var/Mb)'' s3
                       then Some (a + 2 + length ds + 8) else None)
              else None))"

text \<open>
  \<open>re.sub(pattern, '\2', s)\<close>. The replacement is written without the \<open>r\<close> prefix, so
  \<open>'\2'\<close> is the one-character string \<open>chr(2)\<close> and has no group reference in it. The scan
  goes left to right; \<open>skip\<close> counts the characters of a match that are still to be passed
  over after its replacement has been written.
\<close>

fun re_sub_rate :: "nat \<Rightarrow> string \<Rightarrow> string" where
  "re_sub_rate skip [] = []"
| "re_sub_rate skip (c # cs) =
     (if 0 < skip then re_sub_rate (skip - 1) cs
      else case match_rate_len (c # cs) of
             Some m \<Rightarrow> CHR 0x02 # re_sub_rate (m - 1) cs
           | None \<Rightarrow> c # re_sub_rate 0 cs)"

text \<open>
  The body of the loop \<open># parse somatic variant rate value\<close>. Only \<open>ValueError\<close> is
  caught: the \<open>KeyError\<close> of a missing key and the \<open>TypeError\<close> of \<open>re.sub\<close> on a float
  leave the loop.
\<close>

definition somatic_variant_rate :: "'f host \<Rightarrow> 'f quality_parameters \<Rightarrow> error + 'f quality_parameters" where
  "somatic_variant_rate h kv =
     andthen (getitem kv ''somatic variant rate'') (\<lambda>x.
       case x of
         Num y \<Rightarrow> Inl TypeError
       | Str t \<Rightarrow>
           (case py_float h (re_sub_rate 0 t) of
              Some y \<Rightarrow> Inr (AList.update ''somatic variant rate'' (Num y) kv)
            | None \<Rightarrow> andthen (pop ''somatic variant rate'' kv) (\<lambda>r. Inr (snd r))))"

definition somaticqc_parse_rates :: "'f host \<Rightarrow> 'f qcdata \<Rightarrow> error + 'f qcdata" where
  "somaticqc_parse_rates h qcdata = for_each_sample (somatic_variant_rate h) qcdata"

subsection \<open>SomaticQC\<close>

text \<open>
  \<open>ms = re.match(r'([^-]+)-[^-]+', s_name)\<close> and, on a match, \<open>s_name = ms.group(1)\<close>.
  The first group takes the longest run of characters other than \<open>-\<close> at the start of the
  name, which must not be empty; a \<open>-\<close> and one more character other than \<open>-\<close> must
  follow. A shorter first group would be followed by a character that is not \<open>-\<close>.
\<close>

definition split_pair_name :: "string \<Rightarrow> string" where
  "split_pair_name s_name =
     (let a = takeWhile (\<lambda>c. c \<noteq> CHR ''-'') s_name;
          r = dropWhile (\<lambda>c. c \<noteq> CHR ''-'') s_name
      in if a \<noteq> [] \<and> (case r of d # c # t \<Rightarrow> c \<noteq> CHR ''-'' | _ \<Rightarrow> False) then a else s_name)"

text \<open>The loop over the files of SomaticQC, which splits the sample name.\<close>

fun somaticqc_parse_files ::
  "'f host \<Rightarrow> log_file list \<Rightarrow> qcml_table \<times> 'f qcdata \<times> 'f event list \<Rightarrow>
     (error \<times> 'f event list) + (qcml_table \<times> 'f qcdata \<times> 'f event list)" where
  "somaticqc_parse_files h [] st = Inr st"
| "somaticqc_parse_files h (f # fs) (qcml, qcdata, calls) =
     (let calls' = calls @ [Add_data_source f];
          s_name = split_pair_name (clean_s_name h (f_s_name f) (f_root f))
      in case parse_qcml h qcml (f_f f) of
           Inl e \<Rightarrow> Inl (e, calls')
         | Inr (qp, qcml') \<Rightarrow>
             somaticqc_parse_files h fs (qcml', AList.update s_name qp qcdata, calls'))"

definition somaticqc_load_samples ::
  "'f host \<Rightarrow> log_file list \<Rightarrow>
     (error \<times> 'f event list) + (qcml_table \<times> 'f qcdata \<times> 'f event list)" where
  "somaticqc_load_samples h files =
     (case somaticqc_parse_files h files ([], [], []) of
        Inl x \<Rightarrow> Inl x
      | Inr (qcml, qcdata, calls) \<Rightarrow>
          (let qcdata' = ignore_samples h qcdata
           in if length qcdata' = 0 then Inl (UserWarning, calls)
              else Inr (qcml, qcdata', calls)))"

text \<open>\<open>d[new] = d.pop(old)\<close>: the \<open>pop\<close> is evaluated first.\<close>

definition rename_key :: "'k \<Rightarrow> 'k \<Rightarrow> ('k, 'v) dict \<Rightarrow> error + ('k, 'v) dict" where
  "rename_key old new d = andthen (pop old d) (\<lambda>r. Inr (AList.update new (fst r) (snd r)))"

text \<open>
  The header dictionary of SomaticQC: six unguarded \<open>update\<close> statements, two guarded
  ones, and the renaming of the column \<open>variant count\<close>.
\<close>

definition somaticqc_headers :: "qcml_table \<Rightarrow> error + headers" where
  "somaticqc_headers qcml =
     andthen (make_headers ''SomaticQC'' qcml) (\<lambda>hs0.
     andthen (header_updates
       [(''sample correlation'', [(''format'', HStr ''{:,.2f}''), (''max'', HInt 1)]),
        (''variant count'', [(''format'', HStr ''{:,.0f}''), (''title'', HStr ''variant count'')]),
        (''somatic variant count'', [(''format'', HStr ''{:,.0f}'')]),
        (''known somatic variants %'', percent_max),
        (''somatic indel %'', [(''suffix'', HStr ''%''), (''format'', HStr ''{:,.2f}''),
                               (''minRange'', HInt 20), (''ceiling'', HInt 20)]),
        (''somatic variant rate'', [(''suffix'', HStr ''Variants/Mb''), (''format'', HStr ''{:,.2f}''),
                                    (''min'', HInt 0), (''minRange'', HInt 10), (''ceiling'', HInt 10)])]
       hs0) (\<lambda>hs1.
     let hs2 = try_header_updates
                 [(''somatic transition/transversion ratio'',
                   [(''format'', HStr ''{:,.2f}''), (''minRange'', HInt 5), (''ceiling'', HInt 5)])] hs1;
         hs3 = try_header_updates [(''tumor content estimate'', percent_max)] hs2
     in rename_key ''variant count'' ''variant count somaticqc'' hs3))"

text \<open>\<open>MultiqcModule.__init__\<close> of \<^verbatim>\<open>somaticqc.py\<close>.\<close>

definition somaticqc_init :: "'f host \<Rightarrow> log_file list \<Rightarrow> 'f run" where
  "somaticqc_init h files =
     (case somaticqc_load_samples h files of
        Inl x \<Rightarrow> Inl x
      | Inr (qcml, qcdata0, calls) \<Rightarrow>
          (case andthen (somaticqc_parse_rates h qcdata0) (\<lambda>qcdata1.
                  andthen (somaticqc_headers qcml) (\<lambda>hs.
                    andthen (for_each_sample (rename_key ''variant count'' ''variant count somaticqc'')
                               qcdata1) (\<lambda>qcdata. Inr (qcdata, hs)))) of
             Inl e \<Rightarrow> Inl (e, calls)
           | Inr (qcdata, hs) \<Rightarrow>
               (let calls1 = calls @
                      [General_stats_addcols qcdata
                         (dict_ordered_subset hs
                            [''sample correlation'', ''somatic variant count'', ''known somatic variants %'']),
                       Write_data_file qcdata ''multiqc_somaticqc'',
                       Add_section ''Overview'' ''somaticqc-general'' []
                         (Table qcdata (dict_ordered_subset hs
                            [''sample correlation'', ''variant count somaticqc'', ''somatic variant count'',
                             ''known somatic variants %'', ''somatic indel %'',
                             ''somatic transition/transversion ratio'', ''somatic variant rate'',
                             ''tumor content estimate'']))]
                in case make_description qcml [''somatic variant count''] of
                     Inl e \<Rightarrow> Inl (e, calls1)
                   | Inr d \<Rightarrow>
                       Inr (calls1 @
                         [Add_section ''Somatic Variant Count'' ''somaticqc-somatic-variant-count'' d
                            (Bargraph [qcdata] [dict_ordered_subset hs [''somatic variant count'']])]))))"

subsection \<open>VariantQC\<close>

text \<open>The header dictionary of VariantQC: six \<open>update\<close> statements, none of them guarded.\<close>

definition variantqc_headers :: "qcml_table \<Rightarrow> error + headers" where
  "variantqc_headers qcml =
     andthen (make_headers ''VariantQC'' qcml) (header_updates
       [(''variant count'', [(''format'', HStr ''{:,.0f}''), (''scale'', HStr ''Blues'')]),
        (''known variants %'', percent_max_scale ''YlGnBu''),
        (''high-impact variants %'', [(''suffix'', HStr ''%''), (''format'', HStr ''{:,.2f}''),
                                      (''min'', HInt 0), (''minRange'', HInt 10), (''ceiling'', HInt 10),
                                      (''scale'', HStr ''Reds'')]),
        (''homozygous variants %'', percent_max_scale ''Purples''),
        (''indel variants %'', [(''suffix'', HStr ''%''), (''format'', HStr ''{:,.2f}''),
                                (''minRange'', HInt 20), (''ceiling'', HInt 20), (''scale'', HStr ''PuRd'')]),
        (''transition/transversion ratio'', [(''format'', HStr ''{:,.2f}''), (''minRange'', HInt 5),
                                             (''ceiling'', HInt 5), (''scale'', HStr ''RdBu'')])])"

text \<open>
  \<open>MultiqcModule.__init__\<close> of \<^verbatim>\<open>variantqc.py\<close>. Between the check for samples and the
  calls into the framework it reads the description table only, no sample.
\<close>

definition variantqc_init :: "'f host \<Rightarrow> log_file list \<Rightarrow> 'f run" where
  "variantqc_init h files =
     (case load_samples h files of
        Inl x \<Rightarrow> Inl x
      | Inr (qcml, qcdata, calls) \<Rightarrow>
          (case variantqc_headers qcml of
             Inl e \<Rightarrow> Inl (e, calls)
           | Inr hs \<Rightarrow>
               (let calls1 = calls @
                      [General_stats_addcols qcdata
                         (dict_ordered_subset hs [''variant count'', ''known variants %'']),
                       Write_data_file qcdata ''multiqc_variantqc'',
                       Add_section ''Overview'' ''variantqc-general'' []
                         (Table qcdata (dict_ordered_subset hs
                            [''variant count'', ''high-impact variants %'', ''homozygous variants %'',
                             ''indel variants %'', ''transition/transversion ratio'']))]
                in case make_description qcml [''variant count''] of
                     Inl e \<Rightarrow> Inl (e, calls1)
                   | Inr d \<Rightarrow>
                       Inr (calls1 @
                         [Add_section ''Variant Count'' ''variantqc-variant-count'' d
                            (Bargraph [qcdata] [dict_ordered_subset hs [''variant count'']])]))))"


section \<open>Notions used to state the properties\<close>

text \<open>An element that the loop of \<open>parse_qcml\<close> skips: its value starts with \<open>n/a\<close>.\<close>

definition na_value :: "element \<Rightarrow> bool" where
  "na_value e = (case map_of (attrib e) ''value'' of None \<Rightarrow> False | Some v \<Rightarrow> prefix ''n/a'' v)"

text \<open>
  The key and value that an element which is not skipped puts into the returned dictionary.
\<close>

definition qp_entry :: "'f host \<Rightarrow> element \<Rightarrow> (string \<times> 'f qc_value) option" where
  "qp_entry h e =
     (case map_of (attrib e) ''value'' of
        None \<Rightarrow> None
      | Some v \<Rightarrow>
          if prefix ''n/a'' v then None
          else map_option (\<lambda>n. (re_sub_percentage n, float_or_str h v)) (map_of (attrib e) ''name''))"

definition kept_entries :: "'f host \<Rightarrow> element \<Rightarrow> (string \<times> 'f qc_value) list" where
  "kept_entries h r = List.map_filter (qp_entry h) (findall_descendants r qualityParameter)"

text \<open>
  An element with an attribute missing that the loop reads: \<open>value\<close>, or, when the value
  does not start with \<open>n/a\<close>, one of \<open>name\<close>, \<open>description\<close> and \<open>accession\<close>.
\<close>

definition lacks_attribute :: "element \<Rightarrow> bool" where
  "lacks_attribute e =
     (case map_of (attrib e) ''value'' of
        None \<Rightarrow> True
      | Some v \<Rightarrow> \<not> prefix ''n/a'' v \<and>
          (map_of (attrib e) ''name'' = None \<or> map_of (attrib e) ''description'' = None \<or>
           map_of (attrib e) ''accession'' = None))"

text \<open>
  What the conversion from megabases does to one sample: the new key holds the old number
  times \<open>1e6\<close>, the old key is gone, every other key is untouched.
\<close>

definition mb_replaced ::
  "'f host \<Rightarrow> string \<Rightarrow> string \<Rightarrow> string \<times> 'f quality_parameters \<Rightarrow>
     string \<times> 'f quality_parameters \<Rightarrow> bool" where
  "mb_replaced h mb_key key old new =
     (fst new = fst old \<and>
      (\<exists>x. map_of (snd old) mb_key = Some (Num x) \<and>
           map_of (snd new) key = Some (Num (times_1e6 h x))) \<and>
      map_of (snd new) mb_key = None \<and>
      (\<forall>k. k \<noteq> mb_key \<and> k \<noteq> key \<longrightarrow> map_of (snd new) k = map_of (snd old) k))"

subsection \<open>Example inputs\<close>

text \<open>
  A \<open>qualityParameter\<close> element as the qcML files have it, a document around a list of
  them, and a host whose parser rejects the text \<open><qcML\<close> and reads any other text as the
  given document. Floats are rational numbers here.
\<close>

definition example_qp :: "string \<Rightarrow> string \<Rightarrow> element" where
  "example_qp n v =
     Element qualityParameter
       [(''ID'', ''qp0001''), (''name'', n), (''description'', ''About '' @ n),
        (''value'', v), (''cvRef'', ''QC''), (''accession'', ''QC:2000020'')] []"

definition example_doc :: "element list \<Rightarrow> element" where
  "example_doc qps =
     Element ''{http://www.prime-xs.eu/ms/qcml}qcML'' [(''version'', ''0.0.8'')]
       [Element ''{http://www.prime-xs.eu/ms/qcml}runQuality'' [(''ID'', ''rq0001'')] qps]"

definition example_float :: "string \<Rightarrow> rat option" where
  "example_float s =
     (if s = ''97.3'' then Some (973 / 10)
      else if s = ''210'' then Some 210
      else if s = ''1250.5'' then Some (2501 / 2)
      else None)"

definition example_host :: "element \<Rightarrow> rat host" where
  "example_host r =
     \<lparr>fromstring = (\<lambda>s. if s = ''<qcML'' then None else Some r),
      py_float = example_float,
      times_1e6 = (\<lambda>x. x * 1000000),
      clean_s_name = (\<lambda>s d. s),
      ignore_samples = (\<lambda>d. d)\<rparr>"

definition example_file :: log_file where
  "example_file = \<lparr>f_s_name = ''S1'', f_root = ''data'', f_f = ''<qcML/>''\<rparr>"

text \<open>The sample of the specification's examples.\<close>

definition example_sample :: "element list" where
  "example_sample =
     [example_qp ''mapped read percentage'' ''97.3'',
      example_qp ''insert size'' ''210'',
      example_qp ''target region read depth'' ''n/a (no target region)'',
      example_qp ''sample note'' ''NA_TEXT'']"

text \<open>
  A MappingQC sample with every column the module requires, the read depth of the target
  region and its 10x coverage, but none of the other coverage values.
\<close>

definition partial_coverage_sample :: "element list" where
  "partial_coverage_sample =
     [example_qp ''trimmed base percentage'' ''97.3'',
      example_qp ''clipped base percentage'' ''97.3'',
      example_qp ''mapped read percentage'' ''97.3'',
      example_qp ''bases usable (MB)'' ''1250.5'',
      example_qp ''on-target read percentage'' ''97.3'',
      example_qp ''target region read depth'' ''210'',
      example_qp ''target region 10x percentage'' ''97.3'']"


text \<open>What \<open>parse_qcml\<close> returns for the sample of the specification's examples.\<close>

definition example_values :: "rat quality_parameters" where
  "example_values =
     [(''mapped read %'', Num (973 / 10)), (''insert size'', Num 210),
      (''sample note'', Str ''NA_TEXT'')]"

definition example_table :: qcml_table where
  "example_table =
     [(''mapped read %'', [(''description'', ''About mapped read percentage''),
                           (''accession'', ''QC:2000020'')]),
      (''insert size'', [(''description'', ''About insert size''), (''accession'', ''QC:2000020'')]),
      (''sample note'', [(''description'', ''About sample note''), (''accession'', ''QC:2000020'')])]"


text \<open>The names of the report sections among the calls a run has made.\<close>

fun section_names :: "'f event list \<Rightarrow> string list" where
  "section_names [] = []"
| "section_names (Add_section n a d p # es) = n # section_names es"
| "section_names (e # es) = section_names es"

text \<open>
  Two files for VariantQC: a sample with every column the module requires, and a document
  without any quality parameter. The host reads the text \<open><empty/>\<close> as the second.
\<close>

definition variant_sample :: "element list" where
  "variant_sample =
     [example_qp ''variant count'' ''210'',
      example_qp ''known variants percentage'' ''97.3'',
      example_qp ''high-impact variants percentage'' ''97.3'',
      example_qp ''homozygous variants percentage'' ''97.3'',
      example_qp ''indel variants percentage'' ''97.3'',
      example_qp ''transition/transversion ratio'' ''210'']"

definition empty_file :: log_file where
  "empty_file = \<lparr>f_s_name = ''S2'', f_root = ''data'', f_f = ''<empty/>''\<rparr>"

definition two_sample_host :: "rat host" where
  "two_sample_host =
     (example_host (example_doc variant_sample))
       \<lparr>fromstring := (\<lambda>s. if s = ''<empty/>'' then Some (example_doc [])
                             else Some (example_doc variant_sample))\<rparr>"

text \<open>Two SomaticQC samples: an annotated rate, and a rate that is some other text.\<close>

definition rate_samples :: "rat qcdata" where
  "rate_samples =
     [(''T1'', [(''somatic variant count'', Num 210),
                (''somatic variant rate'', Str ''high (12.5 var/Mb)'')]),
      (''T2'', [(''somatic variant rate'', Str ''NA_TEXT''), (''somatic variant count'', Num 210)])]"

text \<open>What \<open>parse_qcml\<close> returns for the complete VariantQC sample.\<close>

definition variant_values :: "rat quality_parameters" where
  "variant_values =
     [(''variant count'', Num 210), (''known variants %'', Num (973 / 10)),
      (''high-impact variants %'', Num (973 / 10)), (''homozygous variants %'', Num (973 / 10)),
      (''indel variants %'', Num (973 / 10)), (''transition/transversion ratio'', Num 210)]"

section \<open>Properties of the extractor\<close>

subsection \<open>Dictionaries\<close>

lemma dict_update_Nil: "dict_update [] d = d"
  by (simp add: dict_update_def)

lemma dict_update_Cons: "dict_update (kv # kvs) d = dict_update kvs (AList.update (fst kv) (snd kv) d)"
  by (simp add: dict_update_def)

lemma dict_update_snoc: "dict_update (kvs @ [kv]) d = AList.update (fst kv) (snd kv) (dict_update kvs d)"
  by (simp add: dict_update_def)

lemma map_of_dict_update: "map_of (dict_update kvs d) = map_of d ++ map_of (rev kvs)"
proof (induction kvs rule: rev_induct)
  case Nil
  show ?case by (simp add: dict_update_Nil)
next
  case (snoc kv kvs)
  show ?case
    by (cases kv) (auto simp: dict_update_snoc update_conv' snoc.IH fun_eq_iff map_add_def)
qed

lemma keys_dict_update_empty: "map fst (dict_update kvs []) = rev (remdups (rev (map fst kvs)))"
proof (induction kvs rule: rev_induct)
  case Nil
  show ?case by (simp add: dict_update_Nil)
next
  case (snoc kv kvs)
  have "set (map fst (dict_update kvs [])) = set (map fst kvs)"
    by (simp only: snoc.IH set_rev set_remdups)
  then show ?case using snoc.IH by (simp add: dict_update_snoc update_keys)
qed

lemma set_update_subset: "set (AList.update k v al) \<subseteq> insert (k, v) (set al)"
  by (induction al) auto

lemma set_dict_update: "set (dict_update kvs d) \<subseteq> set d \<union> set kvs"
proof (induction kvs rule: rev_induct)
  case Nil
  show ?case by (simp add: dict_update_Nil)
next
  case (snoc kv kvs)
  from set_update_subset[of "fst kv" "snd kv" "dict_update kvs d"] snoc.IH
  show ?case by (auto simp: dict_update_snoc)
qed

lemma map_filter_append:
  "List.map_filter f (xs @ ys) = List.map_filter f xs @ List.map_filter f ys"
  by (simp add: map_filter_def)

subsection \<open>The pattern \<open>' percentage$'\<close>\<close>

lemma re_sub_percentage_eq:
  "re_sub_percentage n =
     (if suffix '' percentage'' n then take (length n - 11) n @ '' %''
      else if suffix ('' percentage'' @ [CHR 0x0A]) n
        then take (length n - 12) n @ '' %'' @ [CHR 0x0A]
      else n)"
proof (induction n)
  case Nil
  show ?case by simp
next
  case (Cons c cs)
  let ?P = "'' percentage''" and ?Q = "'' percentage'' @ [CHR 0x0A]"
  consider "c # cs = ?P" | "c # cs = ?Q" | "c # cs \<noteq> ?P" "c # cs \<noteq> ?Q" by blast
  then show ?case
  proof cases
    case 1
    then show ?thesis by simp
  next
    case 2
    then show ?thesis by (simp add: suffix_def)
  next
    case 3
    have sP: "suffix ?P (c # cs) = suffix ?P cs"
      using 3(1) by (simp only: suffix_Cons) auto
    have sQ: "suffix ?Q (c # cs) = suffix ?Q cs"
      using 3(2) by (simp only: suffix_Cons) auto
    have lP: "suffix ?P cs \<Longrightarrow> 11 \<le> length cs" by (drule suffix_length_le) simp
    have lQ: "suffix ?Q cs \<Longrightarrow> 12 \<le> length cs" by (drule suffix_length_le) simp
    have step: "re_sub_percentage (c # cs) = c # re_sub_percentage cs" using 3 by simp
    show ?thesis
      unfolding step sP sQ Cons.IH using lP lQ by (auto simp: take_Cons')
  qed
qed

subsection \<open>One element, then the loop\<close>

lemma qp_step_na: "na_value e \<Longrightarrow> qp_step h e st = Inr st"
  by (auto simp: na_value_def qp_step_def andthen_def getitem_def split: option.splits)

lemma qp_step_Inr:
  "qp_step h e st = Inr st' \<Longrightarrow>
     (na_value e \<and> st' = st) \<or>
     (\<exists>kv. qp_entry h e = Some kv \<and> fst st' = AList.update (fst kv) (snd kv) (fst st)) \<and>
       \<not> lacks_attribute e"
  by (auto simp: na_value_def qp_step_def andthen_def getitem_def qp_entry_def
        lacks_attribute_def Let_def split: option.splits if_splits)

lemma qp_step_Inl: "qp_step h e st = Inl err \<Longrightarrow> err = KeyError \<and> lacks_attribute e"
  by (auto simp: qp_step_def andthen_def getitem_def lacks_attribute_def Let_def
        split: option.splits if_splits)

lemma na_entry: "na_value e \<Longrightarrow> qp_entry h e = None"
  by (auto simp: na_value_def qp_entry_def split: option.splits)

lemma na_not_lacking: "na_value e \<Longrightarrow> \<not> lacks_attribute e"
  by (auto simp: na_value_def lacks_attribute_def split: option.splits)

lemma qp_loop_filter_na: "qp_loop h (filter (\<lambda>e. \<not> na_value e) es) st = qp_loop h es st"
  by (induction es arbitrary: st) (auto simp: qp_step_na andthen_def split: sum.splits)

lemma qp_loop_Inr:
  "qp_loop h es st = Inr st' \<Longrightarrow>
     fst st' = dict_update (List.map_filter (qp_entry h) es) (fst st) \<and>
     (\<forall>e\<in>set es. \<not> lacks_attribute e)"
proof (induction es arbitrary: st)
  case Nil
  then show ?case by (simp add: dict_update_Nil)
next
  case (Cons e es)
  from Cons.prems obtain st1 where s1: "qp_step h e st = Inr st1"
    and l: "qp_loop h es st1 = Inr st'"
    by (auto simp: andthen_def split: sum.splits)
  from Cons.IH[OF l]
  have ih: "fst st' = dict_update (List.map_filter (qp_entry h) es) (fst st1)"
    "\<forall>e\<in>set es. \<not> lacks_attribute e" by auto
  from qp_step_Inr[OF s1] show ?case
  proof
    assume "na_value e \<and> st1 = st"
    then show ?thesis using ih by (simp add: na_entry na_not_lacking)
  next
    assume "(\<exists>kv. qp_entry h e = Some kv \<and> fst st1 = AList.update (fst kv) (snd kv) (fst st)) \<and>
       \<not> lacks_attribute e"
    then show ?thesis using ih by (auto simp: dict_update_Cons)
  qed
qed

lemma qp_loop_Inl: "\<exists>e\<in>set es. lacks_attribute e \<Longrightarrow> qp_loop h es st = Inl KeyError"
proof (induction es arbitrary: st)
  case Nil
  then show ?case by simp
next
  case (Cons e es)
  show ?case
  proof (cases "qp_step h e st")
    case (Inl err)
    then show ?thesis using qp_step_Inl[OF Inl] by (simp add: andthen_def)
  next
    case (Inr st1)
    with qp_step_Inr[OF Inr] Cons.prems have "\<exists>e\<in>set es. lacks_attribute e"
      by (auto simp: na_not_lacking)
    then show ?thesis using Cons.IH Inr by (simp add: andthen_def)
  qed
qed

lemma qp_loop_total:
  "\<forall>e\<in>set es. \<not> lacks_attribute e \<Longrightarrow> \<exists>st'. qp_loop h es st = Inr st'"
proof (induction es arbitrary: st)
  case Nil
  show ?case by simp
next
  case (Cons e es)
  from Cons.prems have "\<not> lacks_attribute e" by simp
  then obtain st1 where "qp_step h e st = Inr st1"
    using qp_step_Inl[of h e st] by (cases "qp_step h e st") auto
  moreover from Cons.prems have "\<forall>e\<in>set es. \<not> lacks_attribute e" by simp
  from Cons.IH[OF this, of st1] obtain st' where "qp_loop h es st1 = Inr st'" by blast
  ultimately show ?case by (simp add: andthen_def)
qed

lemma parse_qcml_Inr:
  assumes "parse_qcml h qcml s = Inr (qp, qcml')" and "fromstring h s = Some r"
  shows "qp = dict_update (kept_entries h r) []"
    and "\<forall>e\<in>set (findall_descendants r qualityParameter). \<not> lacks_attribute e"
proof -
  from assms have "qp_loop h (findall_descendants r qualityParameter) ([], qcml) = Inr (qp, qcml')"
    by (simp add: parse_qcml_def)
  from qp_loop_Inr[OF this]
  show "qp = dict_update (kept_entries h r) []"
    and "\<forall>e\<in>set (findall_descendants r qualityParameter). \<not> lacks_attribute e"
    by (simp_all add: kept_entries_def)
qed

subsection \<open>The example sample\<close>

lemmas parse_example_defs = example_host_def example_doc_def example_qp_def example_float_def
  parse_qcml_def findall_descendants_def qualityParameter_def qp_step_def andthen_def
  getitem_def float_or_str_def Let_def

lemma example_fromstring: "fromstring (example_host r) ''<qcML/>'' = Some r"
  by (simp add: example_host_def)

lemma example_findall: "findall_descendants (example_doc qps) qualityParameter
    = filter (\<lambda>e. tag e = qualityParameter) (concat (map iter qps))"
  by (simp add: findall_descendants_def example_doc_def qualityParameter_def)

lemma example_sample_found:
  "findall_descendants (example_doc example_sample) qualityParameter = example_sample"
  by (simp add: example_findall example_sample_def example_qp_def)

lemma example_sample_parsed:
  "parse_qcml (example_host (example_doc example_sample)) [] ''<qcML/>''
     = Inr (example_values, example_table)"
  by (simp add: parse_example_defs example_sample_def example_values_def example_table_def)

subsection \<open>Skipped values\<close>

text \<open>
  C1. An element whose \<open>value\<close> starts with \<open>n/a\<close> contributes nothing: \<open>parse_qcml\<close>
  behaves as if these elements were not in the document, and every entry of the returned
  dictionary is the entry of an element whose value does not start with \<open>n/a\<close>.
\<close>

theorem parse_qcml_skips_na:
  assumes "fromstring h s = Some r"
  shows "parse_qcml h qcml s =
           qp_loop h (filter (\<lambda>e. \<not> na_value e) (findall_descendants r qualityParameter)) ([], qcml)
         \<and> (\<forall>qp qcml'. parse_qcml h qcml s = Inr (qp, qcml') \<longrightarrow>
              (\<forall>kv\<in>set qp. \<exists>e\<in>set (findall_descendants r qualityParameter).
                  \<not> na_value e \<and> qp_entry h e = Some kv))"
proof (intro conjI allI impI ballI)
  show "parse_qcml h qcml s =
          qp_loop h (filter (\<lambda>e. \<not> na_value e) (findall_descendants r qualityParameter)) ([], qcml)"
    using assms by (simp add: parse_qcml_def qp_loop_filter_na)
next
  fix qp qcml' kv
  assume ok: "parse_qcml h qcml s = Inr (qp, qcml')" and kv: "kv \<in> set qp"
  let ?es = "findall_descendants r qualityParameter"
  have "qp = dict_update (List.map_filter (qp_entry h) ?es) []"
    using parse_qcml_Inr(1)[OF ok assms] by (simp add: kept_entries_def)
  with kv set_dict_update[of "List.map_filter (qp_entry h) ?es" "[]"]
  have "kv \<in> set (List.map_filter (qp_entry h) ?es)" by auto
  then obtain e where e: "e \<in> set ?es" "qp_entry h e = Some kv"
    by (auto simp: map_filter_def)
  moreover from e(2) have "\<not> na_value e" using na_entry[of e h] by auto
  ultimately show "\<exists>e\<in>set ?es. \<not> na_value e \<and> qp_entry h e = Some kv" by blast
qed

theorem parse_qcml_skips_na_witness:
  "fromstring (example_host (example_doc example_sample)) ''<qcML/>'' = Some (example_doc example_sample)
   \<and> qp_loop (example_host (example_doc example_sample))
        (filter (\<lambda>e. \<not> na_value e) (findall_descendants (example_doc example_sample) qualityParameter))
        ([], [])
      = Inr (example_values, example_table)
   \<and> map_of example_values ''target region read depth'' = None"
proof -
  have "parse_qcml (example_host (example_doc example_sample)) [] ''<qcML/>'' =
          qp_loop (example_host (example_doc example_sample))
            (filter (\<lambda>e. \<not> na_value e) (findall_descendants (example_doc example_sample) qualityParameter))
            ([], [])"
    using parse_qcml_skips_na[OF example_fromstring, of "example_doc example_sample" "[]"]
    by (rule conjunct1)
  then have "qp_loop (example_host (example_doc example_sample))
            (filter (\<lambda>e. \<not> na_value e) (findall_descendants (example_doc example_sample) qualityParameter))
            ([], []) = Inr (example_values, example_table)"
    by (simp only: example_sample_parsed)
  moreover have "map_of example_values ''target region read depth'' = None"
    by (simp add: example_values_def)
  ultimately show ?thesis using example_fromstring by blast
qed

subsection \<open>Keys\<close>

text \<open>
  C2, as the code has it. The key of an element that is not skipped is its name with
  \<open>" percentage"\<close> replaced by \<open>" %"\<close> where the name ends in \<open>" percentage"\<close> or in
  \<open>" percentage"\<close> followed by one final newline; every other name is the key unchanged.
\<close>

theorem parse_qcml_key:
  assumes ok: "parse_qcml h qcml s = Inr (qp, qcml')"
    and doc: "fromstring h s = Some r"
    and e: "e \<in> set (findall_descendants r qualityParameter)"
    and v: "map_of (attrib e) ''value'' = Some v" "\<not> prefix ''n/a'' v"
  shows "\<exists>n. map_of (attrib e) ''name'' = Some n \<and>
           re_sub_percentage n \<in> set (map fst qp) \<and>
           re_sub_percentage n =
             (if suffix '' percentage'' n then take (length n - 11) n @ '' %''
              else if suffix ('' percentage'' @ [CHR 0x0A]) n
                then take (length n - 12) n @ '' %'' @ [CHR 0x0A]
              else n)"
proof -
  from parse_qcml_Inr[OF ok doc] e have "\<not> lacks_attribute e"
    and qp: "qp = dict_update (kept_entries h r) []" by auto
  with v obtain n where n: "map_of (attrib e) ''name'' = Some n"
    by (auto simp: lacks_attribute_def)
  with v have "qp_entry h e = Some (re_sub_percentage n, float_or_str h v)"
    by (simp add: qp_entry_def)
  with e have "(re_sub_percentage n, float_or_str h v) \<in> set (kept_entries h r)"
    by (force simp: kept_entries_def map_filter_def)
  then have "re_sub_percentage n \<in> set (map fst (kept_entries h r))" by force
  then have "re_sub_percentage n \<in> set (map fst qp)"
    unfolding qp keys_dict_update_empty by simp
  with n re_sub_percentage_eq[of n] show ?thesis by blast
qed

theorem parse_qcml_key_witness:
  "parse_qcml (example_host (example_doc example_sample)) [] ''<qcML/>''
     = Inr (example_values, example_table)
   \<and> example_qp ''mapped read percentage'' ''97.3''
       \<in> set (findall_descendants (example_doc example_sample) qualityParameter)
   \<and> \<not> prefix ''n/a'' ''97.3''
   \<and> ''mapped read %'' \<in> set (map fst example_values)"
proof -
  let ?e = "example_qp ''mapped read percentage'' ''97.3''"
  have e: "?e \<in> set (findall_descendants (example_doc example_sample) qualityParameter)"
    by (simp add: example_sample_found) (simp add: example_sample_def)
  have v: "map_of (attrib ?e) ''value'' = Some ''97.3''" by (simp add: example_qp_def)
  have na: "\<not> prefix ''n/a'' ''97.3''" by simp
  from parse_qcml_key[OF example_sample_parsed example_fromstring e v na]
  obtain n where "map_of (attrib ?e) ''name'' = Some n"
    and k: "re_sub_percentage n \<in> set (map fst example_values)" by blast
  then have "n = ''mapped read percentage''" by (simp add: example_qp_def)
  with k have "''mapped read %'' \<in> set (map fst example_values)" by simp
  with example_sample_parsed e na show ?thesis by blast
qed

text \<open>
  C2 as stated fails: the name \<open>"reads percentage\n"\<close> does not end in \<open>" percentage"\<close>,
  and still its key is not the name.
\<close>

theorem parse_qcml_key_counterexample:
  "\<not> suffix '' percentage'' (''reads percentage'' @ [CHR 0x0A])
   \<and> parse_qcml (example_host (example_doc [example_qp (''reads percentage'' @ [CHR 0x0A]) ''NA_TEXT'']))
        [] ''<qcML/>''
     = Inr ([(''reads %'' @ [CHR 0x0A], Str ''NA_TEXT'')],
            [(''reads %'' @ [CHR 0x0A],
              [(''description'', ''About reads percentage'' @ [CHR 0x0A]), (''accession'', ''QC:2000020'')])])
   \<and> ''reads %'' @ [CHR 0x0A] \<noteq> ''reads percentage'' @ [CHR 0x0A]"
  by (simp add: parse_example_defs suffix_def)

subsection \<open>Values\<close>

text \<open>
  C3. For an element that is not skipped and whose key no later element writes again, the
  value stored under its key is the float when \<open>float\<close> accepts the \<open>value\<close> attribute and
  the attribute itself, as a string, when it does not; so a stored string tells that the
  conversion failed. A key that no kept element has is missing. Every stored value is the
  float or the original string of a kept element with that key.
\<close>

theorem parse_qcml_value:
  assumes ok: "parse_qcml h qcml s = Inr (qp, qcml')"
    and doc: "fromstring h s = Some r"
    and pos: "findall_descendants r qualityParameter = pre @ e # post"
    and v: "map_of (attrib e) ''value'' = Some v" "\<not> prefix ''n/a'' v"
    and n: "map_of (attrib e) ''name'' = Some n"
    and last: "\<forall>e'\<in>set post. \<forall>kv. qp_entry h e' = Some kv \<longrightarrow> fst kv \<noteq> re_sub_percentage n"
  shows "map_of qp (re_sub_percentage n) =
           Some (case py_float h v of Some x \<Rightarrow> Num x | None \<Rightarrow> Str v)
         \<and> (map_of qp (re_sub_percentage n) = Some (Str v)) = (py_float h v = None)
         \<and> (\<forall>k. k \<notin> fst ` set (kept_entries h r) \<longrightarrow> map_of qp k = None)
         \<and> (\<forall>kv\<in>set qp. \<exists>e'\<in>set (findall_descendants r qualityParameter). \<exists>n' v'.
               map_of (attrib e') ''name'' = Some n' \<and> map_of (attrib e') ''value'' = Some v' \<and>
               \<not> prefix ''n/a'' v' \<and> fst kv = re_sub_percentage n' \<and>
               snd kv = (case py_float h v' of Some x \<Rightarrow> Num x | None \<Rightarrow> Str v'))"
proof -
  let ?k = "re_sub_percentage n"
  let ?post = "List.map_filter (qp_entry h) post" and ?pre = "List.map_filter (qp_entry h) pre"
  have qp: "qp = dict_update (kept_entries h r) []" by (rule parse_qcml_Inr(1)[OF ok doc])
  have ent: "qp_entry h e = Some (?k, float_or_str h v)" using v n by (simp add: qp_entry_def)
  have split: "kept_entries h r = ?pre @ (?k, float_or_str h v) # ?post"
    by (simp add: kept_entries_def pos map_filter_append map_filter_simps ent)
  have "?k \<notin> fst ` set ?post" using last by (force simp: map_filter_def)
  then have none: "map_of (rev ?post) ?k = None" by (simp add: map_of_eq_None_iff)
  have A: "map_of qp ?k = Some (float_or_str h v)"
    by (simp add: qp map_of_dict_update split map_add_def none)
  have C: "map_of qp k = None" if "k \<notin> fst ` set (kept_entries h r)" for k
    using that by (simp add: qp map_of_dict_update map_of_eq_None_iff)
  have D: "\<exists>e'\<in>set (findall_descendants r qualityParameter). \<exists>n' v'.
               map_of (attrib e') ''name'' = Some n' \<and> map_of (attrib e') ''value'' = Some v' \<and>
               \<not> prefix ''n/a'' v' \<and> fst kv = re_sub_percentage n' \<and>
               snd kv = (case py_float h v' of Some x \<Rightarrow> Num x | None \<Rightarrow> Str v')"
    if "kv \<in> set qp" for kv
  proof -
    from that set_dict_update[of "kept_entries h r" "[]"] have "kv \<in> set (kept_entries h r)"
      unfolding qp by auto
    then obtain e' where e': "e' \<in> set (findall_descendants r qualityParameter)"
      and kv: "qp_entry h e' = Some kv"
      by (auto simp: kept_entries_def map_filter_def)
    from kv obtain n' v' where "map_of (attrib e') ''name'' = Some n'"
      "map_of (attrib e') ''value'' = Some v'" "\<not> prefix ''n/a'' v'"
      "kv = (re_sub_percentage n', float_or_str h v')"
      by (auto simp: qp_entry_def split: option.splits if_splits)
    then have "map_of (attrib e') ''name'' = Some n' \<and> map_of (attrib e') ''value'' = Some v' \<and>
               \<not> prefix ''n/a'' v' \<and> fst kv = re_sub_percentage n' \<and>
               snd kv = (case py_float h v' of Some x \<Rightarrow> Num x | None \<Rightarrow> Str v')"
      by (simp add: float_or_str_def)
    with e' show ?thesis by blast
  qed
  from A have A': "map_of qp ?k = Some (case py_float h v of Some x \<Rightarrow> Num x | None \<Rightarrow> Str v)"
    by (simp add: float_or_str_def)
  have B: "(map_of qp ?k = Some (Str v)) = (py_float h v = None)"
    unfolding A' by (simp split: option.splits)
  from A' B C D show ?thesis by blast
qed

theorem parse_qcml_value_witness:
  "parse_qcml (example_host (example_doc example_sample)) [] ''<qcML/>''
     = Inr (example_values, example_table)
   \<and> findall_descendants (example_doc example_sample) qualityParameter
     = [example_qp ''mapped read percentage'' ''97.3''] @ example_qp ''insert size'' ''210'' #
       [example_qp ''target region read depth'' ''n/a (no target region)'',
        example_qp ''sample note'' ''NA_TEXT'']
   \<and> \<not> prefix ''n/a'' ''210''
   \<and> map_of example_values (re_sub_percentage ''insert size'')
     = Some (case py_float (example_host (example_doc example_sample)) ''210'' of
               Some x \<Rightarrow> Num x | None \<Rightarrow> Str ''210'')
   \<and> map_of example_values ''insert size'' = Some (Num 210)
   \<and> map_of example_values ''sample note'' = Some (Str ''NA_TEXT'')
   \<and> map_of example_values ''target region read depth'' = None"
proof -
  let ?h = "example_host (example_doc example_sample)"
  let ?e = "example_qp ''insert size'' ''210''"
  let ?post = "[example_qp ''target region read depth'' ''n/a (no target region)'',
        example_qp ''sample note'' ''NA_TEXT'']"
  have pos: "findall_descendants (example_doc example_sample) qualityParameter
     = [example_qp ''mapped read percentage'' ''97.3''] @ ?e # ?post"
    by (simp add: example_sample_found) (simp add: example_sample_def)
  have v: "map_of (attrib ?e) ''value'' = Some ''210''" by (simp add: example_qp_def)
  have na: "\<not> prefix ''n/a'' ''210''" by simp
  have n: "map_of (attrib ?e) ''name'' = Some ''insert size''" by (simp add: example_qp_def)
  have k: "re_sub_percentage ''insert size'' = ''insert size''" by simp
  have last: "\<forall>e'\<in>set ?post. \<forall>kv. qp_entry ?h e' = Some kv \<longrightarrow> fst kv \<noteq> re_sub_percentage ''insert size''"
    unfolding k by (auto simp: qp_entry_def example_qp_def)
  have c: "map_of example_values (re_sub_percentage ''insert size'')
     = Some (case py_float ?h ''210'' of Some x \<Rightarrow> Num x | None \<Rightarrow> Str ''210'')"
    using parse_qcml_value[OF example_sample_parsed example_fromstring pos v na n last]
    by (rule conjunct1)
  have "map_of example_values ''insert size'' = Some (Num 210)"
    "map_of example_values ''sample note'' = Some (Str ''NA_TEXT'')"
    "map_of example_values ''target region read depth'' = None"
    by (simp_all add: example_values_def)
  with example_sample_parsed pos na c show ?thesis by blast
qed

subsection \<open>Order of the keys\<close>

text \<open>
  C9. The keys of the returned dictionary are the keys of the elements that are not
  skipped, in document order, each at the place of its first occurrence; where these keys
  are distinct the two lists are equal.
\<close>

theorem parse_qcml_order:
  assumes ok: "parse_qcml h qcml s = Inr (qp, qcml')"
    and doc: "fromstring h s = Some r"
  shows "map fst qp = rev (remdups (rev (map fst (kept_entries h r))))
         \<and> (distinct (map fst (kept_entries h r)) \<longrightarrow> map fst qp = map fst (kept_entries h r))"
proof -
  have "map fst qp = rev (remdups (rev (map fst (kept_entries h r))))"
    unfolding parse_qcml_Inr(1)[OF ok doc] by (rule keys_dict_update_empty)
  then show ?thesis by (simp add: distinct_remdups_id)
qed

theorem parse_qcml_order_witness:
  "parse_qcml (example_host (example_doc example_sample)) [] ''<qcML/>''
     = Inr (example_values, example_table)
   \<and> map fst example_values
     = rev (remdups (rev (map fst
         (kept_entries (example_host (example_doc example_sample)) (example_doc example_sample)))))
   \<and> map fst (kept_entries (example_host (example_doc example_sample)) (example_doc example_sample))
     = [''mapped read %'', ''insert size'', ''sample note'']"
proof -
  have c: "map fst example_values
     = rev (remdups (rev (map fst
         (kept_entries (example_host (example_doc example_sample)) (example_doc example_sample)))))"
    using parse_qcml_order[OF example_sample_parsed example_fromstring] by (rule conjunct1)
  have "map fst (kept_entries (example_host (example_doc example_sample)) (example_doc example_sample))
     = [''mapped read %'', ''insert size'', ''sample note'']"
    by (simp add: kept_entries_def example_sample_found)
       (simp add: example_sample_def map_filter_def qp_entry_def example_qp_def)
  with example_sample_parsed c show ?thesis by blast
qed

subsection \<open>Failures of the input\<close>

text \<open>
  C6, as the code has it. Text that the XML parser rejects makes \<open>parse_qcml\<close> raise the
  parser's error. On well-formed text it raises \<open>KeyError\<close> exactly when some
  \<open>qualityParameter\<close> element has no \<open>value\<close>, or has a value that does not start with
  \<open>n/a\<close> and no \<open>name\<close>, \<open>description\<close> or \<open>accession\<close>; otherwise it returns.
\<close>

theorem parse_qcml_raises:
  "(fromstring h s = None \<longrightarrow> parse_qcml h qcml s = Inl ParseError) \<and>
   (\<forall>r. fromstring h s = Some r \<longrightarrow>
      (if \<exists>e\<in>set (findall_descendants r qualityParameter). lacks_attribute e
       then parse_qcml h qcml s = Inl KeyError
       else \<exists>res. parse_qcml h qcml s = Inr res))"
proof (intro conjI allI impI)
  assume "fromstring h s = None"
  then show "parse_qcml h qcml s = Inl ParseError" by (simp add: parse_qcml_def)
next
  fix r assume doc: "fromstring h s = Some r"
  show "if \<exists>e\<in>set (findall_descendants r qualityParameter). lacks_attribute e
       then parse_qcml h qcml s = Inl KeyError
       else \<exists>res. parse_qcml h qcml s = Inr res"
  proof (cases "\<exists>e\<in>set (findall_descendants r qualityParameter). lacks_attribute e")
    case True
    then show ?thesis using doc by (simp add: parse_qcml_def qp_loop_Inl)
  next
    case False
    then have "\<forall>e\<in>set (findall_descendants r qualityParameter). \<not> lacks_attribute e" by blast
    from qp_loop_total[OF this] False doc show ?thesis by (simp add: parse_qcml_def)
  qed
qed

theorem parse_qcml_raises_witness:
  "fromstring (example_host (example_doc [])) ''<qcML'' = None
   \<and> parse_qcml (example_host (example_doc [])) [] ''<qcML'' = Inl ParseError
   \<and> lacks_attribute (Element qualityParameter [(''name'', ''read count''), (''value'', ''210'')] [])
   \<and> parse_qcml
       (example_host (example_doc [Element qualityParameter [(''name'', ''read count''), (''value'', ''210'')] []]))
       [] ''<qcML/>'' = Inl KeyError"
proof -
  let ?e = "Element qualityParameter [(''name'', ''read count''), (''value'', ''210'')] []"
  have bad: "fromstring (example_host (example_doc [])) ''<qcML'' = None"
    by (simp add: example_host_def)
  from parse_qcml_raises[of "example_host (example_doc [])" "''<qcML''" "[]"] bad
  have p: "parse_qcml (example_host (example_doc [])) [] ''<qcML'' = Inl ParseError" by blast
  have l: "lacks_attribute ?e" by (simp add: lacks_attribute_def)
  have "?e \<in> set (findall_descendants (example_doc [?e]) qualityParameter)"
    by (simp add: example_findall)
  with l have ex: "\<exists>e\<in>set (findall_descendants (example_doc [?e]) qualityParameter). lacks_attribute e"
    by blast
  from parse_qcml_raises[of "example_host (example_doc [?e])" "''<qcML/>''" "[]"]
    example_fromstring[of "example_doc [?e]"] ex
  have "parse_qcml (example_host (example_doc [?e])) [] ''<qcML/>'' = Inl KeyError"
    by (simp del: bex_simps)
  with bad p l show ?thesis by blast
qed

text \<open>
  C6 as stated fails: an element whose value starts with \<open>n/a\<close> is skipped before its other
  attributes are read, so their absence does not make \<open>parse_qcml\<close> raise.
\<close>

theorem parse_qcml_raises_counterexample:
  "map_of (attrib (Element qualityParameter [(''value'', ''n/a'')] [])) ''name'' = None
   \<and> map_of (attrib (Element qualityParameter [(''value'', ''n/a'')] [])) ''description'' = None
   \<and> map_of (attrib (Element qualityParameter [(''value'', ''n/a'')] [])) ''accession'' = None
   \<and> parse_qcml (example_host (example_doc [Element qualityParameter [(''value'', ''n/a'')] []]))
        [] ''<qcML/>'' = Inr ([], [])"
  by (simp add: parse_example_defs)

section \<open>Properties of the report modules\<close>

subsection \<open>No samples\<close>

lemma parse_files_calls:
  "parse_files h files (qcml, qcdata, calls) = Inr (qcml', qcdata', calls') \<Longrightarrow>
     calls' = calls @ map Add_data_source files"
proof (induction files arbitrary: qcml qcdata calls)
  case Nil
  then show ?case by simp
next
  case (Cons f fs)
  from Cons.prems obtain qp qcml1
    where "parse_files h fs (qcml1, AList.update (clean_s_name h (f_s_name f) (f_root f)) qp qcdata,
             calls @ [Add_data_source f]) = Inr (qcml', qcdata', calls')"
    by (auto simp: Let_def split: sum.splits)
  from Cons.IH[OF this] show ?case by simp
qed

lemma load_samples_none:
  "parse_files h files ([], [], []) = Inr (qcml, qcdata, calls) \<Longrightarrow> ignore_samples h qcdata = [] \<Longrightarrow>
     load_samples h files = Inl (UserWarning, calls)"
  by (simp add: load_samples_def)

lemma load_samples_some:
  "parse_files h files ([], [], []) = Inr (qcml, qcdata, calls) \<Longrightarrow> ignore_samples h qcdata \<noteq> [] \<Longrightarrow>
     load_samples h files = Inr (qcml, ignore_samples h qcdata, calls)"
  by (simp add: load_samples_def Let_def)

text \<open>
  C5. When the files parse and no sample is left after \<open>ignore_samples\<close>, ReadQC and
  MappingQC raise \<open>UserWarning\<close>, and the only calls made to the framework before it are the
  \<open>add_data_source\<close> registrations of the files read: no general statistics, no data
  file, no section.
\<close>

theorem no_samples_user_warning:
  assumes "parse_files h files ([], [], []) = Inr (qcml, qcdata, calls)"
    and "ignore_samples h qcdata = []"
  shows "readqc_init h files = Inl (UserWarning, calls)
         \<and> mappingqc_init h files = Inl (UserWarning, calls)
         \<and> calls = map Add_data_source files
         \<and> section_names calls = []"
proof -
  have c: "calls = map Add_data_source files" using parse_files_calls[OF assms(1)] by simp
  have "section_names (map Add_data_source fs) = []" for fs :: "log_file list"
    by (induction fs) simp_all
  with c load_samples_none[OF assms] show ?thesis
    by (simp add: readqc_init_def mappingqc_init_def)
qed

theorem no_samples_user_warning_witness:
  "parse_files ((example_host (example_doc example_sample))\<lparr>ignore_samples := \<lambda>d. []\<rparr>)
      [example_file] ([], [], [])
     = Inr (example_table, [(''S1'', example_values)], [Add_data_source example_file])
   \<and> readqc_init ((example_host (example_doc example_sample))\<lparr>ignore_samples := \<lambda>d. []\<rparr>)
        [example_file] = Inl (UserWarning, [Add_data_source example_file])
   \<and> mappingqc_init ((example_host (example_doc example_sample))\<lparr>ignore_samples := \<lambda>d. []\<rparr>)
        [example_file] = Inl (UserWarning, [Add_data_source example_file])"
proof -
  let ?h = "(example_host (example_doc example_sample))\<lparr>ignore_samples := \<lambda>d. []\<rparr>"
  have p: "parse_files ?h [example_file] ([], [], [])
     = Inr (example_table, [(''S1'', example_values)], [Add_data_source example_file])"
    by (simp add: parse_example_defs example_sample_def example_values_def example_table_def
          example_file_def)
  have i: "ignore_samples ?h [(''S1'', example_values)] = []" by simp
  from no_samples_user_warning[OF p i] p show ?thesis by blast
qed

subsection \<open>A sample without quality parameters\<close>

lemma mb_to_bases_Inl: "mb_to_bases h mb key kv = Inl e \<Longrightarrow> e = KeyError \<or> e = TypeError"
  by (auto simp: mb_to_bases_def andthen_def getitem_def pop_def
        split: option.splits qc_value.splits sum.splits)

lemma mb_to_bases_empty: "mb_to_bases h mb key [] = Inl KeyError"
  by (simp add: mb_to_bases_def andthen_def getitem_def)

lemma for_each_mb_empty_sample:
  "(s, []) \<in> set qcdata \<Longrightarrow>
     for_each_sample (mb_to_bases h mb key) qcdata = Inl KeyError \<or>
     for_each_sample (mb_to_bases h mb key) qcdata = Inl TypeError"
proof (induction qcdata)
  case Nil
  then show ?case by simp
next
  case (Cons sample qcdata)
  obtain s' kv where sample: "sample = (s', kv)" by (cases sample)
  show ?case
  proof (cases "mb_to_bases h mb key kv")
    case (Inl e)
    with mb_to_bases_Inl[OF Inl] show ?thesis by (auto simp: sample andthen_def)
  next
    case (Inr kv')
    then have "kv \<noteq> []" using mb_to_bases_empty[of h mb key] by auto
    with Cons.prems sample have "(s, []) \<in> set qcdata" by auto
    from Cons.IH[OF this] Inr show ?thesis by (auto simp: sample andthen_def)
  qed
qed

lemma add_bases_key_empty_sample:
  "(s, []) \<in> set qcdata \<Longrightarrow>
     add_bases_key h mb key (qcml, qcdata) = Inl KeyError \<or>
     add_bases_key h mb key (qcml, qcdata) = Inl TypeError"
  using for_each_mb_empty_sample[of s qcdata h mb key]
  by (auto simp: add_bases_key_def andthen_def pop_def getitem_def Let_def update_conv'
        split: option.splits)

subsection \<open>Megabases to bases\<close>

lemma mb_to_bases_Num:
  "mb \<noteq> key \<Longrightarrow> map_of kv mb = Some (Num x) \<Longrightarrow>
     mb_to_bases h mb key kv = Inr (AList.delete mb (AList.update key (Num (times_1e6 h x)) kv))"
  by (simp add: mb_to_bases_def andthen_def getitem_def pop_def update_conv')

lemma mb_replaced_step:
  assumes "mb \<noteq> key" and "map_of kv mb = Some (Num x)"
  shows "mb_replaced h mb key (s, kv) (s, AList.delete mb (AList.update key (Num (times_1e6 h x)) kv))"
  using assms by (simp add: mb_replaced_def delete_conv' update_conv')

lemma for_each_mb_replaced:
  assumes "mb \<noteq> key"
  shows "\<forall>sample\<in>set qcdata. \<exists>x. map_of (snd sample) mb = Some (Num x) \<Longrightarrow>
     \<exists>qcdata'. for_each_sample (mb_to_bases h mb key) qcdata = Inr qcdata' \<and>
       list_all2 (mb_replaced h mb key) qcdata qcdata'"
proof (induction qcdata)
  case Nil
  show ?case by simp
next
  case (Cons sample qcdata)
  obtain s kv where sample: "sample = (s, kv)" by (cases sample)
  from Cons.prems sample obtain x where x: "map_of kv mb = Some (Num x)" by auto
  from Cons.prems Cons.IH obtain rest
    where rest: "for_each_sample (mb_to_bases h mb key) qcdata = Inr rest"
      "list_all2 (mb_replaced h mb key) qcdata rest" by auto
  show ?case
    using mb_to_bases_Num[OF assms x, of h] mb_replaced_step[OF assms x, of h s] rest
    by (simp add: sample andthen_def)
qed

lemma add_bases_key_replaced:
  assumes "mb \<noteq> key" and "map_of qcml mb \<noteq> None"
    and "\<forall>sample\<in>set qcdata. \<exists>x. map_of (snd sample) mb = Some (Num x)"
  shows "\<exists>qcml' qcdata'. add_bases_key h mb key (qcml, qcdata) = Inr (qcml', qcdata') \<and>
           list_all2 (mb_replaced h mb key) qcdata qcdata' \<and>
           map_of qcml' mb = None \<and>
           map_of qcml' key = Some [(''description'', ''Bases sequenced in total.'')]"
proof -
  from for_each_mb_replaced[OF assms(1,3), of h] obtain qcdata'
    where q: "for_each_sample (mb_to_bases h mb key) qcdata = Inr qcdata'"
      "list_all2 (mb_replaced h mb key) qcdata qcdata'" by blast
  let ?qcml' = "AList.update key [(''description'', ''Bases sequenced in total.'')]
                  (AList.update key [] (AList.delete mb qcml))"
  from assms(2) q(1) have "add_bases_key h mb key (qcml, qcdata) = Inr (?qcml', qcdata')"
    by (auto simp: add_bases_key_def andthen_def pop_def getitem_def update_conv')
  moreover have "map_of ?qcml' mb = None" using assms(1) by (simp add: update_conv' delete_conv')
  moreover have "map_of ?qcml' key = Some [(''description'', ''Bases sequenced in total.'')]"
    by (simp add: update_conv')
  ultimately show ?thesis using q(2) by blast
qed

text \<open>
  C8. Where the description table has the megabase key and every sample holds a number
  under it, the block of ReadQC (of MappingQC) completes; in every sample the key
  \<open>bases sequenced\<close> (\<open>bases usable\<close>) then holds the old number times \<open>1e6\<close>, the megabase
  key is gone and the other keys are as before; in the description table the megabase key
  is gone and the new key has its description.
\<close>

theorem bases_key_replaced:
  "(map_of qcml ''bases sequenced (MB)'' \<noteq> None \<and>
    (\<forall>sample\<in>set qcdata. \<exists>x. map_of (snd sample) ''bases sequenced (MB)'' = Some (Num x)) \<longrightarrow>
    (\<exists>qcml' qcdata'. readqc_add_bases_sequenced h (qcml, qcdata) = Inr (qcml', qcdata') \<and>
       list_all2 (mb_replaced h ''bases sequenced (MB)'' ''bases sequenced'') qcdata qcdata' \<and>
       map_of qcml' ''bases sequenced (MB)'' = None \<and>
       map_of qcml' ''bases sequenced'' = Some [(''description'', ''Bases sequenced in total.'')]))
   \<and>
   (map_of qcml ''bases usable (MB)'' \<noteq> None \<and>
    (\<forall>sample\<in>set qcdata. \<exists>x. map_of (snd sample) ''bases usable (MB)'' = Some (Num x)) \<longrightarrow>
    (\<exists>qcml' qcdata'. mappingqc_add_bases_usable h (qcml, qcdata) = Inr (qcml', qcdata') \<and>
       list_all2 (mb_replaced h ''bases usable (MB)'' ''bases usable'') qcdata qcdata' \<and>
       map_of qcml' ''bases usable (MB)'' = None \<and>
       map_of qcml' ''bases usable'' = Some [(''description'', ''Bases sequenced in total.'')]))"
proof (intro conjI impI)
  assume "map_of qcml ''bases sequenced (MB)'' \<noteq> None \<and>
    (\<forall>sample\<in>set qcdata. \<exists>x. map_of (snd sample) ''bases sequenced (MB)'' = Some (Num x))"
  then show "\<exists>qcml' qcdata'. readqc_add_bases_sequenced h (qcml, qcdata) = Inr (qcml', qcdata') \<and>
       list_all2 (mb_replaced h ''bases sequenced (MB)'' ''bases sequenced'') qcdata qcdata' \<and>
       map_of qcml' ''bases sequenced (MB)'' = None \<and>
       map_of qcml' ''bases sequenced'' = Some [(''description'', ''Bases sequenced in total.'')]"
    unfolding readqc_add_bases_sequenced_def
    by (intro add_bases_key_replaced) simp_all
next
  assume "map_of qcml ''bases usable (MB)'' \<noteq> None \<and>
    (\<forall>sample\<in>set qcdata. \<exists>x. map_of (snd sample) ''bases usable (MB)'' = Some (Num x))"
  then show "\<exists>qcml' qcdata'. mappingqc_add_bases_usable h (qcml, qcdata) = Inr (qcml', qcdata') \<and>
       list_all2 (mb_replaced h ''bases usable (MB)'' ''bases usable'') qcdata qcdata' \<and>
       map_of qcml' ''bases usable (MB)'' = None \<and>
       map_of qcml' ''bases usable'' = Some [(''description'', ''Bases sequenced in total.'')]"
    unfolding mappingqc_add_bases_usable_def
    by (intro add_bases_key_replaced) simp_all
qed

theorem bases_key_replaced_witness:
  "map_of [(''bases sequenced (MB)'', [(''description'', ''About bases sequenced (MB)'')])]
      ''bases sequenced (MB)'' \<noteq> None
   \<and> (\<exists>qcml' qcdata'.
        readqc_add_bases_sequenced (example_host (example_doc []))
          ([(''bases sequenced (MB)'', [(''description'', ''About bases sequenced (MB)'')])],
           [(''S1'', [(''bases sequenced (MB)'', Num 210), (''read count'', Num 210)])])
          = Inr (qcml', qcdata') \<and>
        list_all2 (mb_replaced (example_host (example_doc [])) ''bases sequenced (MB)'' ''bases sequenced'')
          [(''S1'', [(''bases sequenced (MB)'', Num 210), (''read count'', Num 210)])] qcdata' \<and>
        map_of qcml' ''bases sequenced (MB)'' = None \<and>
        map_of qcml' ''bases sequenced'' = Some [(''description'', ''Bases sequenced in total.'')])
   \<and> readqc_add_bases_sequenced (example_host (example_doc []))
          ([(''bases sequenced (MB)'', [(''description'', ''About bases sequenced (MB)'')])],
           [(''S1'', [(''bases sequenced (MB)'', Num 210), (''read count'', Num 210)])])
      = Inr ([(''bases sequenced'', [(''description'', ''Bases sequenced in total.'')])],
             [(''S1'', [(''read count'', Num 210), (''bases sequenced'', Num 210000000)])])"
proof -
  let ?qcml = "[(''bases sequenced (MB)'', [(''description'', ''About bases sequenced (MB)'')])]"
  let ?qcdata = "[(''S1'', [(''bases sequenced (MB)'', Num (210 :: rat)), (''read count'', Num 210)])]"
  have a: "map_of ?qcml ''bases sequenced (MB)'' \<noteq> None" by simp
  have b: "\<forall>sample\<in>set ?qcdata. \<exists>x. map_of (snd sample) ''bases sequenced (MB)'' = Some (Num x)"
    by simp
  have c: "readqc_add_bases_sequenced (example_host (example_doc [])) (?qcml, ?qcdata)
      = Inr ([(''bases sequenced'', [(''description'', ''Bases sequenced in total.'')])],
             [(''S1'', [(''read count'', Num 210), (''bases sequenced'', Num 210000000)])])"
    by (simp add: readqc_add_bases_sequenced_def add_bases_key_def mb_to_bases_def andthen_def
          pop_def getitem_def example_host_def)
  from bases_key_replaced[of ?qcml ?qcdata "example_host (example_doc [])", THEN conjunct1] a b
  have "\<exists>qcml' qcdata'.
        readqc_add_bases_sequenced (example_host (example_doc [])) (?qcml, ?qcdata) = Inr (qcml', qcdata') \<and>
        list_all2 (mb_replaced (example_host (example_doc [])) ''bases sequenced (MB)'' ''bases sequenced'')
          ?qcdata qcdata' \<and>
        map_of qcml' ''bases sequenced (MB)'' = None \<and>
        map_of qcml' ''bases sequenced'' = Some [(''description'', ''Bases sequenced in total.'')]"
    by blast
  with a c show ?thesis by blast
qed

subsection \<open>The somatic variant rate\<close>

lemma re_sub_rate_skip: "length cs \<le> skip \<Longrightarrow> re_sub_rate skip cs = []"
  by (induction cs arbitrary: skip) auto

lemma not_rate_digit_space: "\<not> rate_digit CHR '' ''"
  by (simp add: rate_digit_def)

lemma rate_level_len_annotated:
  "lvl \<in> {''low'', ''moderate'', ''high''} \<Longrightarrow>
     rate_level_len (lvl @ rest) = Some (length lvl) \<and> drop (length lvl) (lvl @ rest) = rest"
  by (auto simp: rate_level_len_def)

lemma match_rate_tail:
  assumes "rate_level_len s = Some a" and "drop a s = '' ('' @ ds @ '' var/Mb)''"
    and ds: "ds \<noteq> []" "set ds \<subseteq> set ''0123456789.''"
  shows "match_rate_len s = Some (a + 2 + length ds + 8)"
proof -
  have all: "\<And>c. c \<in> set ds \<Longrightarrow> rate_digit c"
    using ds(2) unfolding rate_digit_def by blast
  have tw: "takeWhile rate_digit (ds @ '' var/Mb)'') = ds"
    using all by (simp add: takeWhile_append2 not_rate_digit_space)
  have dw: "dropWhile rate_digit (ds @ '' var/Mb)'') = '' var/Mb)''"
    using all by (simp add: dropWhile_append2 not_rate_digit_space)
  have p: "prefix '' ('' ('' ('' @ ds @ '' var/Mb)'')" by simp
  have d2: "drop 2 ('' ('' @ ds @ '' var/Mb)'') = ds @ '' var/Mb)''" by simp
  have p2: "prefix '' var/Mb)'' '' var/Mb)''" by simp
  show ?thesis
    unfolding match_rate_len_def assms(1) option.case Let_def assms(2) d2 tw dw
    using p p2 ds(1) by (simp only: if_True simp_thms)
qed

lemma match_rate_len_annotated:
  assumes lvl: "lvl \<in> {''low'', ''moderate'', ''high''}"
    and ds: "ds \<noteq> []" "set ds \<subseteq> set ''0123456789.''"
  shows "match_rate_len (lvl @ '' ('' @ ds @ '' var/Mb)'') = Some (length lvl + 2 + length ds + 8)"
  using rate_level_len_annotated[OF lvl, of "'' ('' @ ds @ '' var/Mb)''"] ds
  by (intro match_rate_tail) blast+

lemma re_sub_rate_annotated:
  assumes "lvl \<in> {''low'', ''moderate'', ''high''}" and "ds \<noteq> []" "set ds \<subseteq> set ''0123456789.''"
  shows "re_sub_rate 0 (lvl @ '' ('' @ ds @ '' var/Mb)'') = [CHR 0x02]"
proof -
  let ?s = "lvl @ '' ('' @ ds @ '' var/Mb)''"
  obtain c cs where s: "?s = c # cs" by (cases ?s) auto
  have len: "length cs + 1 = length lvl + 2 + length ds + 8"
    using arg_cong[OF s, of length] by simp
  from match_rate_len_annotated[OF assms] s
  have "match_rate_len (c # cs) = Some (length lvl + 2 + length ds + 8)" by simp
  then have "re_sub_rate 0 (c # cs) = CHR 0x02 # re_sub_rate (length lvl + 2 + length ds + 8 - 1) cs"
    by simp
  also have "re_sub_rate (length lvl + 2 + length ds + 8 - 1) cs = []"
    using len by (intro re_sub_rate_skip) simp
  finally show ?thesis by (simp only: s)
qed

lemma for_each_sample_nth:
  "for_each_sample body (before @ (s, kv) # after) = Inr qcdata' \<Longrightarrow>
     \<exists>kv'. body kv = Inr kv' \<and> qcdata' ! length before = (s, kv')"
proof (induction before arbitrary: qcdata')
  case Nil
  then show ?case by (auto simp: andthen_def split: sum.splits)
next
  case (Cons sample before)
  obtain s' kv0 where sample: "sample = (s', kv0)" by (cases sample)
  from Cons.prems obtain kv1 rest where "body kv0 = Inr kv1"
    and rest: "for_each_sample body (before @ (s, kv) # after) = Inr rest"
    and q: "qcdata' = (s', kv1) # rest"
    by (auto simp: sample andthen_def split: sum.splits)
  from Cons.IH[OF rest] show ?case by (simp add: q)
qed

lemma for_each_sample_length:
  "for_each_sample body qcdata = Inr qcdata' \<Longrightarrow> length qcdata' = length qcdata"
proof (induction qcdata arbitrary: qcdata')
  case Nil
  then show ?case by simp
next
  case (Cons sample qcdata)
  obtain s kv where sample: "sample = (s, kv)" by (cases sample)
  from Cons.prems obtain kv' rest where "for_each_sample body qcdata = Inr rest"
    and "qcdata' = (s, kv') # rest"
    by (auto simp: sample andthen_def split: sum.splits)
  with Cons.IH show ?case by simp
qed

lemma for_each_sample_total:
  "\<forall>sample\<in>set qcdata. \<exists>kv'. body (snd sample) = Inr kv' \<Longrightarrow>
     \<exists>qcdata'. for_each_sample body qcdata = Inr qcdata'"
proof (induction qcdata)
  case Nil
  show ?case by simp
next
  case (Cons sample qcdata)
  obtain s kv where sample: "sample = (s, kv)" by (cases sample)
  from Cons.prems sample obtain kv' where "body kv = Inr kv'" by auto
  moreover from Cons.prems Cons.IH obtain rest where "for_each_sample body qcdata = Inr rest"
    by auto
  ultimately show ?case by (simp add: sample andthen_def)
qed

lemma somatic_variant_rate_Str:
  "map_of kv ''somatic variant rate'' = Some (Str t) \<Longrightarrow> \<exists>kv'. somatic_variant_rate h kv = Inr kv'"
  by (simp add: somatic_variant_rate_def andthen_def getitem_def pop_def split: option.splits)

text \<open>
  C10. Where \<open>float\<close> rejects the one-character string \<open>chr(2)\<close>, a sample whose
  \<open>somatic variant rate\<close> is a string of the form \<open>(low|moderate|high) (N var/Mb)\<close> has the
  whole string replaced by \<open>chr(2)\<close>, the conversion fails and the key is removed from the
  sample's mapping by the loop body. The loop over the samples completes whenever the other
  samples hold a string under the key, and in every run of the loop that completes the
  sample is left without the key.
\<close>

theorem somatic_variant_rate_removed:
  assumes fl: "py_float h [CHR 0x02] = None"
    and lvl: "lvl \<in> {''low'', ''moderate'', ''high''}"
    and ds: "ds \<noteq> []" "set ds \<subseteq> set ''0123456789.''"
    and kv: "map_of kv ''somatic variant rate'' = Some (Str (lvl @ '' ('' @ ds @ '' var/Mb)''))"
  shows "re_sub_rate 0 (lvl @ '' ('' @ ds @ '' var/Mb)'') = [CHR 0x02]
         \<and> somatic_variant_rate h kv = Inr (AList.delete ''somatic variant rate'' kv)
         \<and> map_of (AList.delete ''somatic variant rate'' kv) ''somatic variant rate'' = None
         \<and> (\<forall>s before after qcdata'.
               somaticqc_parse_rates h (before @ (s, kv) # after) = Inr qcdata' \<longrightarrow>
               qcdata' ! length before = (s, AList.delete ''somatic variant rate'' kv))
         \<and> (\<forall>s before after.
               (\<forall>sample\<in>set (before @ after).
                   \<exists>t. map_of (snd sample) ''somatic variant rate'' = Some (Str t)) \<longrightarrow>
               (\<exists>qcdata'. somaticqc_parse_rates h (before @ (s, kv) # after) = Inr qcdata' \<and>
                  length qcdata' = length before + 1 + length after \<and>
                  qcdata' ! length before = (s, AList.delete ''somatic variant rate'' kv)))"
proof -
  have sub: "re_sub_rate 0 (lvl @ '' ('' @ ds @ '' var/Mb)'') = [CHR 0x02]"
    by (rule re_sub_rate_annotated[OF lvl ds])
  have step: "somatic_variant_rate h kv = Inr (AList.delete ''somatic variant rate'' kv)"
    using sub fl by (simp add: somatic_variant_rate_def andthen_def getitem_def pop_def kv)
  have gone: "map_of (AList.delete ''somatic variant rate'' kv) ''somatic variant rate'' = None"
    by (simp add: delete_conv')
  have loop: "qcdata' ! length before = (s, AList.delete ''somatic variant rate'' kv)"
    if "somaticqc_parse_rates h (before @ (s, kv) # after) = Inr qcdata'"
    for s before after qcdata'
    using for_each_sample_nth[OF that[unfolded somaticqc_parse_rates_def]] step by auto
  have total: "\<exists>qcdata'. somaticqc_parse_rates h (before @ (s, kv) # after) = Inr qcdata' \<and>
                  length qcdata' = length before + 1 + length after \<and>
                  qcdata' ! length before = (s, AList.delete ''somatic variant rate'' kv)"
    if others: "\<forall>sample\<in>set (before @ after).
                   \<exists>t. map_of (snd sample) ''somatic variant rate'' = Some (Str t)"
    for s before after
  proof -
    have "\<forall>sample\<in>set (before @ (s, kv) # after). \<exists>kv'. somatic_variant_rate h (snd sample) = Inr kv'"
    proof
      fix sample assume "sample \<in> set (before @ (s, kv) # after)"
      then consider "sample = (s, kv)" | "sample \<in> set (before @ after)" by auto
      then show "\<exists>kv'. somatic_variant_rate h (snd sample) = Inr kv'"
      proof cases
        case 1
        then show ?thesis using step by simp
      next
        case 2
        with others obtain t where "map_of (snd sample) ''somatic variant rate'' = Some (Str t)"
          by blast
        then show ?thesis by (rule somatic_variant_rate_Str)
      qed
    qed
    from for_each_sample_total[OF this] obtain qcdata'
      where r: "somaticqc_parse_rates h (before @ (s, kv) # after) = Inr qcdata'"
      by (auto simp: somaticqc_parse_rates_def)
    from for_each_sample_length[OF r[unfolded somaticqc_parse_rates_def]]
    have "length qcdata' = length before + 1 + length after" by simp
    with r loop[OF r] show ?thesis by blast
  qed
  from sub step gone loop total show ?thesis by blast
qed

theorem somatic_variant_rate_removed_witness:
  "py_float (example_host (example_doc [])) [CHR 0x02] = None
   \<and> ''high'' \<in> {''low'', ''moderate'', ''high''}
   \<and> set ''12.5'' \<subseteq> set ''0123456789.''
   \<and> somatic_variant_rate (example_host (example_doc []))
        [(''somatic variant count'', Num 210), (''somatic variant rate'', Str ''high (12.5 var/Mb)'')]
     = Inr (AList.delete ''somatic variant rate''
        [(''somatic variant count'', Num 210), (''somatic variant rate'', Str ''high (12.5 var/Mb)'')])
   \<and> AList.delete ''somatic variant rate''
        [(''somatic variant count'', Num (210 :: rat)), (''somatic variant rate'', Str ''high (12.5 var/Mb)'')]
     = [(''somatic variant count'', Num 210)]
   \<and> (\<exists>qcdata'. somaticqc_parse_rates (example_host (example_doc [])) rate_samples = Inr qcdata' \<and>
         length qcdata' = 2 \<and> qcdata' ! 0 = (''T1'', [(''somatic variant count'', Num 210)]))
   \<and> somaticqc_parse_rates (example_host (example_doc [])) rate_samples
     = Inr [(''T1'', [(''somatic variant count'', Num 210)]),
            (''T2'', [(''somatic variant count'', Num 210)])]"
proof -
  let ?h = "example_host (example_doc [])"
  let ?kv = "[(''somatic variant count'', Num (210 :: rat)),
              (''somatic variant rate'', Str ''high (12.5 var/Mb)'')]"
  let ?after = "[(''T2'', [(''somatic variant rate'', Str ''NA_TEXT''),
                           (''somatic variant count'', Num (210 :: rat))])]"
  have fl: "py_float ?h [CHR 0x02] = None"
    by (simp add: example_host_def example_float_def)
  have lvl: "''high'' \<in> {''low'', ''moderate'', ''high''}" by simp
  have ds: "''12.5'' \<noteq> []" "set ''12.5'' \<subseteq> set ''0123456789.''" by simp_all
  have kv: "map_of ?kv ''somatic variant rate'' = Some (Str (''high'' @ '' ('' @ ''12.5'' @ '' var/Mb)''))"
    by simp
  have del: "AList.delete ''somatic variant rate'' ?kv = [(''somatic variant count'', Num 210)]"
    by simp
  let ?before = "[] :: rat qcdata"
  have samples: "rate_samples = ?before @ (''T1'', ?kv) # ?after" by (simp add: rate_samples_def)
  have others: "\<forall>sample\<in>set (?before @ ?after).
      \<exists>t. map_of (snd sample) ''somatic variant rate'' = Some (Str t)" by simp
  note inst = somatic_variant_rate_removed[OF fl lvl ds kv]
  from inst have step: "somatic_variant_rate ?h ?kv = Inr (AList.delete ''somatic variant rate'' ?kv)"
    by blast
  from inst have "\<forall>s before after.
               (\<forall>sample\<in>set (before @ after).
                   \<exists>t. map_of (snd sample) ''somatic variant rate'' = Some (Str t)) \<longrightarrow>
               (\<exists>qcdata'. somaticqc_parse_rates ?h (before @ (s, ?kv) # after) = Inr qcdata' \<and>
                  length qcdata' = length before + 1 + length after \<and>
                  qcdata' ! length before = (s, AList.delete ''somatic variant rate'' ?kv))"
    by blast
  with others
  have "\<exists>qcdata'. somaticqc_parse_rates ?h (?before @ (''T1'', ?kv) # ?after) = Inr qcdata' \<and>
         length qcdata' = length ?before + 1 + length ?after \<and>
         qcdata' ! length ?before = (''T1'', AList.delete ''somatic variant rate'' ?kv)"
    by blast
  then have loop: "\<exists>qcdata'. somaticqc_parse_rates ?h rate_samples = Inr qcdata' \<and>
         length qcdata' = 2 \<and> qcdata' ! 0 = (''T1'', [(''somatic variant count'', Num 210)])"
    unfolding samples[symmetric] del by (simp add: numeral_2_eq_2)
  have run: "somaticqc_parse_rates ?h rate_samples
     = Inr [(''T1'', [(''somatic variant count'', Num 210)]),
            (''T2'', [(''somatic variant count'', Num 210)])]"
    by code_simp
  from fl lvl ds(2) step del loop run show ?thesis by blast
qed

subsection \<open>Optional columns of MappingQC\<close>

text \<open>
  C7 at a sample that has the 10x coverage of the target region but not the 20x coverage:
  after the sections Overview, Coverage and Sequencing Depth the run raises \<open>KeyError\<close>,
  at the unguarded lookups \<open>headers[s]\<close> for the bar plot of the target coverage.
\<close>

theorem mappingqc_partial_coverage_fails:
  "isl (mappingqc_init (example_host (example_doc partial_coverage_sample)) [example_file])
   \<and> fst (projl (mappingqc_init (example_host (example_doc partial_coverage_sample)) [example_file]))
     = KeyError
   \<and> section_names
       (snd (projl (mappingqc_init (example_host (example_doc partial_coverage_sample)) [example_file])))
     = [''Overview'', ''Coverage'', ''Sequencing Depth'']"
  by code_simp

subsection \<open>When a run ends in "no data found"\<close>

lemma getitem_not_UserWarning: "getitem d k \<noteq> Inl UserWarning"
  by (simp add: getitem_def split: option.splits)

lemma pop_not_UserWarning: "pop k d \<noteq> Inl UserWarning"
  by (simp add: pop_def split: option.splits)

lemma qp_loop_not_UserWarning: "qp_loop h es st \<noteq> Inl UserWarning"
proof (induction es arbitrary: st)
  case Nil
  show ?case by simp
next
  case (Cons e es)
  show ?case
  proof (cases "qp_step h e st")
    case (Inl err)
    with qp_step_Inl[OF Inl] show ?thesis by (simp add: andthen_def)
  next
    case (Inr st1)
    with Cons.IH show ?thesis by (simp add: andthen_def)
  qed
qed

lemma parse_qcml_not_UserWarning: "parse_qcml h qcml s \<noteq> Inl UserWarning"
  by (simp add: parse_qcml_def qp_loop_not_UserWarning split: option.splits)

lemma parse_files_not_UserWarning: "parse_files h files st \<noteq> Inl (UserWarning, c)"
proof (induction files arbitrary: st)
  case Nil
  show ?case by simp
next
  case (Cons f fs)
  obtain qcml qcdata calls where st: "st = (qcml, qcdata, calls)" by (cases st)
  show ?case
    using Cons.IH parse_qcml_not_UserWarning[of h qcml "f_f f"]
    by (auto simp: st Let_def split: sum.splits)
qed

lemma somaticqc_parse_files_not_UserWarning:
  "somaticqc_parse_files h files st \<noteq> Inl (UserWarning, c)"
proof (induction files arbitrary: st)
  case Nil
  show ?case by simp
next
  case (Cons f fs)
  obtain qcml qcdata calls where st: "st = (qcml, qcdata, calls)" by (cases st)
  show ?case
    using Cons.IH parse_qcml_not_UserWarning[of h qcml "f_f f"]
    by (auto simp: st Let_def split: sum.splits)
qed

lemma for_each_sample_not_UserWarning:
  "(\<And>kv. body kv \<noteq> Inl UserWarning) \<Longrightarrow> for_each_sample body qcdata \<noteq> Inl UserWarning"
proof (induction qcdata)
  case Nil
  show ?case by simp
next
  case (Cons sample qcdata)
  obtain s kv where sample: "sample = (s, kv)" by (cases sample)
  from Cons show ?case by (auto simp: sample andthen_def split: sum.splits)
qed

lemma mb_to_bases_not_UserWarning: "mb_to_bases h mb key kv \<noteq> Inl UserWarning"
  using mb_to_bases_Inl[of h mb key kv UserWarning] by auto

lemma add_bases_key_not_UserWarning: "add_bases_key h mb key st \<noteq> Inl UserWarning"
  using for_each_sample_not_UserWarning[of "mb_to_bases h mb key" "snd st", OF mb_to_bases_not_UserWarning]
  by (auto simp: add_bases_key_def andthen_def Let_def pop_not_UserWarning getitem_not_UserWarning
        split: sum.splits)

lemma make_headers_not_UserWarning: "make_headers ns qcml \<noteq> Inl UserWarning"
proof (induction qcml)
  case Nil
  show ?case by simp
next
  case (Cons entry qcml)
  obtain k d where entry: "entry = (k, d)" by (cases entry)
  from Cons show ?case
    by (auto simp: entry andthen_def getitem_not_UserWarning split: sum.splits)
qed

lemma header_update_not_UserWarning: "header_update k u hs \<noteq> Inl UserWarning"
  by (auto simp: header_update_def andthen_def getitem_not_UserWarning split: sum.splits)

lemma header_updates_not_UserWarning: "header_updates us hs \<noteq> Inl UserWarning"
proof (induction us arbitrary: hs)
  case Nil
  show ?case by simp
next
  case (Cons ku us)
  obtain k u where ku: "ku = (k, u)" by (cases ku)
  from Cons show ?case
    by (auto simp: ku andthen_def header_update_not_UserWarning split: sum.splits)
qed

lemma rename_key_not_UserWarning: "rename_key old new d \<noteq> Inl UserWarning"
  by (auto simp: rename_key_def andthen_def pop_not_UserWarning split: sum.splits)

lemma readqc_headers_not_UserWarning: "readqc_headers qcml \<noteq> Inl UserWarning"
  by (auto simp: readqc_headers_def andthen_def make_headers_not_UserWarning
        header_update_not_UserWarning header_updates_not_UserWarning split: sum.splits)

lemma mappingqc_headers_not_UserWarning: "mappingqc_headers qcml \<noteq> Inl UserWarning"
  by (auto simp: mappingqc_headers_def andthen_def Let_def make_headers_not_UserWarning
        header_update_not_UserWarning header_updates_not_UserWarning split: sum.splits)

lemma variantqc_headers_not_UserWarning: "variantqc_headers qcml \<noteq> Inl UserWarning"
  by (auto simp: variantqc_headers_def andthen_def make_headers_not_UserWarning
        header_update_not_UserWarning header_updates_not_UserWarning split: sum.splits)

lemma somaticqc_headers_not_UserWarning: "somaticqc_headers qcml \<noteq> Inl UserWarning"
  by (auto simp: somaticqc_headers_def andthen_def Let_def make_headers_not_UserWarning
        header_update_not_UserWarning header_updates_not_UserWarning rename_key_not_UserWarning split: sum.splits)

lemma describe_key_not_UserWarning: "describe_key qcml k \<noteq> Inl UserWarning"
  by (auto simp: describe_key_def andthen_def getitem_not_UserWarning split: sum.splits)

lemma describe_items_not_UserWarning: "describe_items qcml ks \<noteq> Inl UserWarning"
  by (induction ks) (auto simp: andthen_def describe_key_not_UserWarning split: sum.splits)

lemma make_description_not_UserWarning: "make_description qcml ks \<noteq> Inl UserWarning"
  by (auto simp: make_description_def andthen_def describe_key_not_UserWarning
        describe_items_not_UserWarning split: sum.splits)

lemma single_headers_not_UserWarning: "single_headers hs ks \<noteq> Inl UserWarning"
  by (induction ks) (auto simp: andthen_def getitem_not_UserWarning split: sum.splits)

lemma somatic_variant_rate_Inl:
  "somatic_variant_rate h kv = Inl e \<Longrightarrow> e = KeyError \<or> e = TypeError"
  by (auto simp: somatic_variant_rate_def andthen_def getitem_def pop_def
        split: option.splits qc_value.splits sum.splits)

lemma somatic_variant_rate_not_UserWarning: "somatic_variant_rate h kv \<noteq> Inl UserWarning"
  using somatic_variant_rate_Inl[of h kv UserWarning] by auto

lemma somaticqc_parse_rates_not_UserWarning: "somaticqc_parse_rates h qcdata \<noteq> Inl UserWarning"
  unfolding somaticqc_parse_rates_def
  by (rule for_each_sample_not_UserWarning) (rule somatic_variant_rate_not_UserWarning)

lemma load_samples_UserWarning:
  "load_samples h files = Inl (UserWarning, calls) \<longleftrightarrow>
     (\<exists>qcml qcdata. parse_files h files ([], [], []) = Inr (qcml, qcdata, calls) \<and>
        ignore_samples h qcdata = [])"
  using parse_files_not_UserWarning[of h files "([], [], [])" calls]
  by (auto simp: load_samples_def Let_def split: sum.splits)

lemma somaticqc_load_samples_UserWarning:
  "somaticqc_load_samples h files = Inl (UserWarning, calls) \<longleftrightarrow>
     (\<exists>qcml qcdata. somaticqc_parse_files h files ([], [], []) = Inr (qcml, qcdata, calls) \<and>
        ignore_samples h qcdata = [])"
  using somaticqc_parse_files_not_UserWarning[of h files "([], [], [])" calls]
  by (auto simp: somaticqc_load_samples_def Let_def split: sum.splits)

lemma readqc_init_UserWarning:
  "readqc_init h files = Inl (UserWarning, calls) \<longleftrightarrow> load_samples h files = Inl (UserWarning, calls)"
  by (auto simp: readqc_init_def readqc_add_bases_sequenced_def andthen_def
        add_bases_key_not_UserWarning readqc_headers_not_UserWarning split: sum.splits)

lemma variantqc_init_UserWarning:
  "variantqc_init h files = Inl (UserWarning, calls) \<longleftrightarrow> load_samples h files = Inl (UserWarning, calls)"
  by (auto simp: variantqc_init_def Let_def variantqc_headers_not_UserWarning
        make_description_not_UserWarning split: sum.splits)

lemma mappingqc_init_UserWarning:
  "mappingqc_init h files = Inl (UserWarning, calls) \<longleftrightarrow> load_samples h files = Inl (UserWarning, calls)"
  by (auto simp: mappingqc_init_def mappingqc_add_bases_usable_def andthen_def Let_def
        add_bases_key_not_UserWarning mappingqc_headers_not_UserWarning
        make_description_not_UserWarning single_headers_not_UserWarning
        split: sum.splits if_splits)

lemma somaticqc_init_UserWarning:
  "somaticqc_init h files = Inl (UserWarning, calls) \<longleftrightarrow>
     somaticqc_load_samples h files = Inl (UserWarning, calls)"
  using for_each_sample_not_UserWarning[of "rename_key ''variant count'' ''variant count somaticqc''",
          OF rename_key_not_UserWarning]
  by (auto simp: somaticqc_init_def andthen_def Let_def
        somaticqc_parse_rates_not_UserWarning somaticqc_headers_not_UserWarning
        make_description_not_UserWarning split: sum.splits)


lemma somaticqc_load_samples_some:
  "somaticqc_parse_files h files ([], [], []) = Inr (qcml, qcdata, calls) \<Longrightarrow>
   ignore_samples h qcdata \<noteq> [] \<Longrightarrow>
     somaticqc_load_samples h files = Inr (qcml, ignore_samples h qcdata, calls)"
  by (simp add: somaticqc_load_samples_def Let_def)

lemma somatic_variant_rate_empty: "somatic_variant_rate h [] = Inl KeyError"
  by (simp add: somatic_variant_rate_def andthen_def getitem_def)

lemma somaticqc_parse_rates_empty_sample:
  "(s, []) \<in> set qcdata \<Longrightarrow>
     somaticqc_parse_rates h qcdata = Inl KeyError \<or> somaticqc_parse_rates h qcdata = Inl TypeError"
  unfolding somaticqc_parse_rates_def
proof (induction qcdata)
  case Nil
  then show ?case by simp
next
  case (Cons sample qcdata)
  obtain s' kv where sample: "sample = (s', kv)" by (cases sample)
  show ?case
  proof (cases "somatic_variant_rate h kv")
    case (Inl e)
    with somatic_variant_rate_Inl[OF Inl] show ?thesis by (auto simp: sample andthen_def)
  next
    case (Inr kv')
    then have "kv \<noteq> []" using somatic_variant_rate_empty[of h] by auto
    with Cons.prems sample have "(s, []) \<in> set qcdata" by auto
    from Cons.IH[OF this] Inr show ?thesis by (auto simp: sample andthen_def)
  qed
qed

text \<open>
  C4, as the code has it. In each of the four modules a run ends in the \<open>UserWarning\<close> of
  "no data found" exactly when the files parse and no sample is left after
  \<open>ignore_samples\<close>; a sample without extracted quality parameters is a sample like any
  other to this check. Such a sample, left after \<open>ignore_samples\<close>, makes ReadQC, MappingQC
  and SomaticQC abort all the same, after the files have been registered and before any
  output, but with the \<open>KeyError\<close> of a lookup in the sample (or the \<open>TypeError\<close> of an
  earlier sample that holds a value of the wrong kind).
\<close>

theorem empty_sample_aborts:
  "(readqc_init h files = Inl (UserWarning, calls) \<longleftrightarrow>
      (\<exists>qcml qcdata. parse_files h files ([], [], []) = Inr (qcml, qcdata, calls) \<and>
         ignore_samples h qcdata = []))
   \<and> (mappingqc_init h files = Inl (UserWarning, calls) \<longleftrightarrow>
      (\<exists>qcml qcdata. parse_files h files ([], [], []) = Inr (qcml, qcdata, calls) \<and>
         ignore_samples h qcdata = []))
   \<and> (variantqc_init h files = Inl (UserWarning, calls) \<longleftrightarrow>
      (\<exists>qcml qcdata. parse_files h files ([], [], []) = Inr (qcml, qcdata, calls) \<and>
         ignore_samples h qcdata = []))
   \<and> (somaticqc_init h files = Inl (UserWarning, calls) \<longleftrightarrow>
      (\<exists>qcml qcdata. somaticqc_parse_files h files ([], [], []) = Inr (qcml, qcdata, calls) \<and>
         ignore_samples h qcdata = []))
   \<and> (\<forall>qcml qcdata s.
         parse_files h files ([], [], []) = Inr (qcml, qcdata, calls) \<and>
         (s, []) \<in> set (ignore_samples h qcdata) \<longrightarrow>
         (readqc_init h files = Inl (KeyError, calls) \<or> readqc_init h files = Inl (TypeError, calls)) \<and>
         (mappingqc_init h files = Inl (KeyError, calls) \<or>
          mappingqc_init h files = Inl (TypeError, calls)))
   \<and> (\<forall>qcml qcdata s.
         somaticqc_parse_files h files ([], [], []) = Inr (qcml, qcdata, calls) \<and>
         (s, []) \<in> set (ignore_samples h qcdata) \<longrightarrow>
         (somaticqc_init h files = Inl (KeyError, calls) \<or>
          somaticqc_init h files = Inl (TypeError, calls)))"
proof (intro conjI allI impI)
  show "readqc_init h files = Inl (UserWarning, calls) \<longleftrightarrow>
      (\<exists>qcml qcdata. parse_files h files ([], [], []) = Inr (qcml, qcdata, calls) \<and>
         ignore_samples h qcdata = [])"
    by (simp only: readqc_init_UserWarning load_samples_UserWarning)
  show "mappingqc_init h files = Inl (UserWarning, calls) \<longleftrightarrow>
      (\<exists>qcml qcdata. parse_files h files ([], [], []) = Inr (qcml, qcdata, calls) \<and>
         ignore_samples h qcdata = [])"
    by (simp only: mappingqc_init_UserWarning load_samples_UserWarning)
  show "variantqc_init h files = Inl (UserWarning, calls) \<longleftrightarrow>
      (\<exists>qcml qcdata. parse_files h files ([], [], []) = Inr (qcml, qcdata, calls) \<and>
         ignore_samples h qcdata = [])"
    by (simp only: variantqc_init_UserWarning load_samples_UserWarning)
  show "somaticqc_init h files = Inl (UserWarning, calls) \<longleftrightarrow>
      (\<exists>qcml qcdata. somaticqc_parse_files h files ([], [], []) = Inr (qcml, qcdata, calls) \<and>
         ignore_samples h qcdata = [])"
    by (simp only: somaticqc_init_UserWarning somaticqc_load_samples_UserWarning)
next
  fix qcml qcdata s
  assume a: "parse_files h files ([], [], []) = Inr (qcml, qcdata, calls) \<and>
         (s, []) \<in> set (ignore_samples h qcdata)"
  then have "ignore_samples h qcdata \<noteq> []" by auto
  from load_samples_some[OF conjunct1[OF a] this]
  have l: "load_samples h files = Inr (qcml, ignore_samples h qcdata, calls)" .
  from add_bases_key_empty_sample[OF conjunct2[OF a], of h "''bases sequenced (MB)''" "''bases sequenced''" qcml]
  show "readqc_init h files = Inl (KeyError, calls) \<or> readqc_init h files = Inl (TypeError, calls)"
    by (auto simp: readqc_init_def l readqc_add_bases_sequenced_def andthen_def)
  from add_bases_key_empty_sample[OF conjunct2[OF a], of h "''bases usable (MB)''" "''bases usable''" qcml]
  show "mappingqc_init h files = Inl (KeyError, calls) \<or>
        mappingqc_init h files = Inl (TypeError, calls)"
    by (auto simp: mappingqc_init_def l mappingqc_add_bases_usable_def andthen_def)
next
  fix qcml qcdata s
  assume a: "somaticqc_parse_files h files ([], [], []) = Inr (qcml, qcdata, calls) \<and>
         (s, []) \<in> set (ignore_samples h qcdata)"
  then have "ignore_samples h qcdata \<noteq> []" by auto
  from somaticqc_load_samples_some[OF conjunct1[OF a] this]
  have l: "somaticqc_load_samples h files = Inr (qcml, ignore_samples h qcdata, calls)" .
  from somaticqc_parse_rates_empty_sample[OF conjunct2[OF a], of h]
  show "somaticqc_init h files = Inl (KeyError, calls) \<or>
        somaticqc_init h files = Inl (TypeError, calls)"
    by (auto simp: somaticqc_init_def l andthen_def)
qed

lemma example_empty_parsed:
  "parse_files (example_host (example_doc [])) [example_file] ([], [], [])
     = Inr ([], [(''S1'', [])], [Add_data_source example_file])"
  by (simp add: parse_example_defs example_file_def)

theorem empty_sample_aborts_witness:
  "parse_files (example_host (example_doc [])) [example_file] ([], [], [])
     = Inr ([], [(''S1'', [])], [Add_data_source example_file])
   \<and> (''S1'', []) \<in> set (ignore_samples (example_host (example_doc [])) [(''S1'', [])])
   \<and> (readqc_init (example_host (example_doc [])) [example_file]
         = Inl (KeyError, [Add_data_source example_file]) \<or>
       readqc_init (example_host (example_doc [])) [example_file]
         = Inl (TypeError, [Add_data_source example_file]))
   \<and> (mappingqc_init (example_host (example_doc [])) [example_file]
         = Inl (KeyError, [Add_data_source example_file]) \<or>
       mappingqc_init (example_host (example_doc [])) [example_file]
         = Inl (TypeError, [Add_data_source example_file]))
   \<and> variantqc_init (example_host (example_doc [])) [example_file]
       \<noteq> Inl (UserWarning, [Add_data_source example_file])"
proof -
  let ?h = "example_host (example_doc [])"
  let ?calls = "[Add_data_source example_file] :: rat event list"
  have i: "(''S1'', []) \<in> set (ignore_samples ?h [(''S1'', [])])"
    by (simp add: example_host_def)
  note inst = empty_sample_aborts[of ?h "[example_file]" ?calls]
  from inst example_empty_parsed i
  have r: "(readqc_init ?h [example_file] = Inl (KeyError, ?calls) \<or>
            readqc_init ?h [example_file] = Inl (TypeError, ?calls)) \<and>
           (mappingqc_init ?h [example_file] = Inl (KeyError, ?calls) \<or>
            mappingqc_init ?h [example_file] = Inl (TypeError, ?calls))"
    by blast
  have "\<not> (\<exists>qcml qcdata. parse_files ?h [example_file] ([], [], []) = Inr (qcml, qcdata, ?calls) \<and>
         ignore_samples ?h qcdata = [])"
  proof
    assume "\<exists>qcml qcdata. parse_files ?h [example_file] ([], [], []) = Inr (qcml, qcdata, ?calls) \<and>
         ignore_samples ?h qcdata = []"
    then obtain qcml qcdata
      where p: "parse_files ?h [example_file] ([], [], []) = Inr (qcml, qcdata, ?calls)"
        and e: "ignore_samples ?h qcdata = []" by blast
    from p have "qcdata = [(''S1'', [])]" unfolding example_empty_parsed by simp
    with e show False by (simp add: example_host_def)
  qed
  with inst have v: "variantqc_init ?h [example_file] \<noteq> Inl (UserWarning, ?calls)" by blast
  from example_empty_parsed i r v show ?thesis by blast
qed

text \<open>
  C4 as stated fails. A ReadQC run on one sample without quality parameters does not end in
  the "no data found" signal \<open>UserWarning\<close> but in a \<open>KeyError\<close>. A VariantQC run on a
  complete sample and a sample without quality parameters does not abort at all: it hands
  both samples to the framework and adds its two sections.
\<close>

theorem empty_sample_counterexample:
  "parse_qcml (example_host (example_doc [])) [] (f_f example_file) = Inr ([], [])
   \<and> readqc_init (example_host (example_doc [])) [example_file]
     = Inl (KeyError, [Add_data_source example_file])
   \<and> readqc_init (example_host (example_doc [])) [example_file]
     \<noteq> Inl (UserWarning, [Add_data_source example_file])
   \<and> parse_qcml two_sample_host [] (f_f empty_file) = Inr ([], [])
   \<and> \<not> isl (variantqc_init two_sample_host [example_file, empty_file])
   \<and> Write_data_file [(''S1'', variant_values), (''S2'', [])] ''multiqc_variantqc''
       \<in> set (projr (variantqc_init two_sample_host [example_file, empty_file]))
   \<and> section_names (projr (variantqc_init two_sample_host [example_file, empty_file]))
     = [''Overview'', ''Variant Count'']"
proof -
  have r: "parse_qcml (example_host (example_doc [])) [] (f_f example_file) = Inr ([], [])
   \<and> readqc_init (example_host (example_doc [])) [example_file]
     = Inl (KeyError, [Add_data_source example_file])
   \<and> readqc_init (example_host (example_doc [])) [example_file]
     \<noteq> Inl (UserWarning, [Add_data_source example_file])"
    by (simp add: parse_example_defs example_file_def readqc_init_def load_samples_def
          readqc_add_bases_sequenced_def add_bases_key_def pop_def)
  have p: "parse_qcml two_sample_host [] (f_f empty_file) = Inr ([], [])"
    by code_simp
  have v: "\<not> isl (variantqc_init two_sample_host [example_file, empty_file])
   \<and> Write_data_file [(''S1'', variant_values), (''S2'', [])] ''multiqc_variantqc''
       \<in> set (projr (variantqc_init two_sample_host [example_file, empty_file]))
   \<and> section_names (projr (variantqc_init two_sample_host [example_file, empty_file]))
     = [''Overview'', ''Variant Count'']"
    by code_simp
  from r p v show ?thesis by blast
qed

end
